theory Spec2Isabelle
  imports Main "HOL-Library.Word"
begin

section \<open>Data model\<close>

text \<open>
  The AppService operator: \<^verbatim>\<open>api/v1alpha1/appservice_types.go\<close> (the custom resource),
  \<^verbatim>\<open>controllers/appservice_controller.go\<close> (the reconciler) and
  \<^verbatim>\<open>pkg/reconciler/reconciler.go\<close> (the accessor helpers of \<^verbatim>\<open>BaseReconciler\<close>).
  Go structs are records. A struct that embeds \<^verbatim>\<open>metav1.ObjectMeta\<close> is a record extending
  \<open>ObjectMeta\<close>, so that the promoted fields (\<^verbatim>\<open>app.Name\<close>) read as in the source and the helpers
  written against \<^verbatim>\<open>client.Object\<close> apply to every kind. Field names shared by several structs
  are written qualified (\<open>Deployment.Spec\<close>, \<open>Condition.Status\<close>).
\<close>

type_synonym int32 = "32 word"

text \<open>\<^verbatim>\<open>metav1.Time\<close>: an instant; \<open>0\<close> is the zero value of \<^verbatim>\<open>time.Time\<close>.\<close>
type_synonym Time = nat

text \<open>\<^verbatim>\<open>time.Duration\<close>, in nanoseconds.\<close>
type_synonym Duration = int

definition Second :: Duration where
  "Second = 1000000000"

text \<open>\<^verbatim>\<open>map[string]string\<close>, in the order the program ranges over it.\<close>
type_synonym StringMap = "(string \<times> string) list"

record NamespacedName =
  Namespace :: string
  Name :: string

text \<open>\<^verbatim>\<open>ctrl.Request\<close> embeds \<^verbatim>\<open>types.NamespacedName\<close> and has no other field.\<close>
type_synonym Request = NamespacedName

record OwnerReference =
  APIVersion :: string
  Kind :: string
  Name :: string
  UID :: string
  Controller :: "bool option"
  BlockOwnerDeletion :: "bool option"

record ObjectMeta =
  Name :: string
  Namespace :: string
  UID :: string
  ResourceVersion :: string
  DeletionTimestamp :: "Time option"
  Labels :: StringMap
  OwnerReferences :: "OwnerReference list"
  Finalizers :: "string list"

datatype ConditionStatus = ConditionTrue | ConditionFalse | ConditionUnknown

text \<open>\<^verbatim>\<open>metav1.Condition\<close>: the fields the program names, in the order of its literal, then
  \<^verbatim>\<open>ObservedGeneration\<close>, which the literal leaves at zero.\<close>
record Condition =
  Type :: string
  Status :: ConditionStatus
  Reason :: string
  Message :: string
  LastTransitionTime :: Time
  ObservedGeneration :: int

text \<open>\<^verbatim>\<open>v1alpha1.ResourceRequirements\<close>: the CPU and memory hints of the record.\<close>
record ResourceHints =
  CPU :: string
  Memory :: string

record AppServiceSpec =
  Replicas :: int32
  Image :: string
  Port :: int32
  Environment :: StringMap
  Resources :: ResourceHints

record AppServiceStatus =
  Phase :: string
  AvailableReplicas :: int32
  Conditions :: "Condition list"
  LastReconcileTime :: Time

record AppService = ObjectMeta +
  Spec :: AppServiceSpec
  Status :: AppServiceStatus

text \<open>
  \<^verbatim>\<open>corev1.ResourceList\<close> is a map from resource name to quantity; \<open>None\<close> is the nil map of
  a zero-valued \<^verbatim>\<open>corev1.ResourceRequirements\<close>, \<open>Some []\<close> the empty map literal.
\<close>
type_synonym ResourceList = "(string \<times> string) list"

record ResourceRequirements =
  Limits :: "ResourceList option"
  Requests :: "ResourceList option"

record ContainerPort =
  ContainerPort :: int32

record EnvVar =
  Name :: string
  Value :: string

record Container =
  Name :: string
  Image :: string
  Ports :: "ContainerPort list"
  Env :: "EnvVar list"
  Resources :: ResourceRequirements

record PodSpec =
  Containers :: "Container list"

record PodTemplateSpec = ObjectMeta +
  Spec :: PodSpec

record LabelSelector =
  MatchLabels :: StringMap

record DeploymentSpec =
  Replicas :: "int32 option"
  Selector :: "LabelSelector option"
  Template :: PodTemplateSpec

record DeploymentStatus =
  AvailableReplicas :: int32

record Deployment = ObjectMeta +
  Spec :: DeploymentSpec
  Status :: DeploymentStatus

text \<open>\<^verbatim>\<open>intstr.IntOrString\<close>: its \<^verbatim>\<open>Type\<close> tag selects one of the two values.\<close>
datatype IntOrString = IntVal int32 | StrVal string

record ServicePort =
  Port :: int32
  TargetPort :: IntOrString

record ServiceSpec =
  Selector :: StringMap
  Ports :: "ServicePort list"
  Type :: string

record Service = ObjectMeta +
  Spec :: ServiceSpec

text \<open>\<^verbatim>\<open>ctrl.Result\<close>.\<close>
record Result =
  Requeue :: bool
  RequeueAfter :: Duration

text \<open>
  A Go \<^verbatim>\<open>error\<close> value of the API machinery. \<^verbatim>\<open>errors.IsNotFound\<close> recognises the
  not-found status; every other error is opaque to the program.
\<close>
datatype error = NotFound | AlreadyExists | Conflict | Other string

fun IsNotFound :: "error \<Rightarrow> bool" where
  "IsNotFound NotFound = True"
| "IsNotFound _ = False"

text \<open>
  What a call of \<^verbatim>\<open>Reconcile\<close> does: it returns \<^verbatim>\<open>(ctrl.Result, error)\<close>, or it panics
  (the nil-pointer dereference of \<^verbatim>\<open>*deployment.Spec.Replicas\<close>).
\<close>
datatype outcome = Return Result "error option" | Panic

subsection \<open>Zero values\<close>

text \<open>A Go composite literal leaves the fields it does not name at their zero value.\<close>

definition zero_AppService :: AppService where
  "zero_AppService =
     \<lparr> ObjectMeta.Name = [], ObjectMeta.Namespace = [], ObjectMeta.UID = [], ResourceVersion = [],
       DeletionTimestamp = None, Labels = [], OwnerReferences = [], Finalizers = [],
       AppService.Spec = \<lparr> AppServiceSpec.Replicas = 0, AppServiceSpec.Image = [],
         AppServiceSpec.Port = 0, Environment = [],
         AppServiceSpec.Resources = \<lparr> CPU = [], Memory = [] \<rparr> \<rparr>,
       AppService.Status = \<lparr> Phase = [], AppServiceStatus.AvailableReplicas = 0,
         Conditions = [], LastReconcileTime = 0 \<rparr> \<rparr>"

definition zero_ResourceRequirements :: ResourceRequirements where
  "zero_ResourceRequirements = \<lparr> Limits = None, Requests = None \<rparr>"

definition zero_Container :: Container where
  "zero_Container =
     \<lparr> Container.Name = [], Container.Image = [], Container.Ports = [], Env = [],
       Container.Resources = zero_ResourceRequirements \<rparr>"

definition zero_PodTemplateSpec :: PodTemplateSpec where
  "zero_PodTemplateSpec =
     \<lparr> ObjectMeta.Name = [], ObjectMeta.Namespace = [], ObjectMeta.UID = [], ResourceVersion = [],
       DeletionTimestamp = None, Labels = [], OwnerReferences = [], Finalizers = [],
       PodTemplateSpec.Spec = \<lparr> Containers = [] \<rparr> \<rparr>"

definition zero_Deployment :: Deployment where
  "zero_Deployment =
     \<lparr> ObjectMeta.Name = [], ObjectMeta.Namespace = [], ObjectMeta.UID = [], ResourceVersion = [],
       DeletionTimestamp = None, Labels = [], OwnerReferences = [], Finalizers = [],
       Deployment.Spec = \<lparr> DeploymentSpec.Replicas = None, DeploymentSpec.Selector = None,
         Template = zero_PodTemplateSpec \<rparr>,
       Deployment.Status = \<lparr> DeploymentStatus.AvailableReplicas = 0 \<rparr> \<rparr>"

definition zero_Service :: Service where
  "zero_Service =
     \<lparr> ObjectMeta.Name = [], ObjectMeta.Namespace = [], ObjectMeta.UID = [], ResourceVersion = [],
       DeletionTimestamp = None, Labels = [], OwnerReferences = [], Finalizers = [],
       Service.Spec = \<lparr> ServiceSpec.Selector = [], ServiceSpec.Ports = [], ServiceSpec.Type = [] \<rparr> \<rparr>"

definition zero_Result :: Result where
  "zero_Result = \<lparr> Requeue = False, RequeueAfter = 0 \<rparr>"

section \<open>The collaborator: \<^verbatim>\<open>client.Client\<close>, the scheme and the clock\<close>

text \<open>
  \<^verbatim>\<open>client.Client\<close> is an interface of controller-runtime. A call takes the object behind the
  pointer it is given, and leaves an error and the object as the client left it; the state of
  the control plane (and anything else the client depends on) is the world \<open>'w\<close>, passed
  through every call. One \<open>Client\<close> value stands for the client at one object kind. The
  record has the methods that \<^verbatim>\<open>Reconcile\<close>, \<^verbatim>\<open>GetObject\<close> and \<^verbatim>\<open>CreateOrUpdate\<close> call;
  none of them calls \<^verbatim>\<open>Delete\<close>.
\<close>

record ('o, 'w) Client =
  Get :: "NamespacedName \<Rightarrow> 'o \<Rightarrow> 'w \<Rightarrow> (error option \<times> 'o) \<times> 'w"
  Create :: "'o \<Rightarrow> 'w \<Rightarrow> (error option \<times> 'o) \<times> 'w"
  Update :: "'o \<Rightarrow> 'w \<Rightarrow> (error option \<times> 'o) \<times> 'w"
  StatusUpdate :: "'o \<Rightarrow> 'w \<Rightarrow> (error option \<times> 'o) \<times> 'w"

record GroupVersionKind =
  Group :: string
  Version :: string
  Kind :: string

text \<open>
  \<^verbatim>\<open>runtime.Scheme\<close>: the program consults it only for the kind registered for the
  \<^verbatim>\<open>AppService\<close> type (inside \<^verbatim>\<open>SetControllerReference\<close>); \<open>None\<close> when none is registered.
\<close>
type_synonym Scheme = "GroupVersionKind option"

text \<open>
  \<^verbatim>\<open>AppServiceReconciler\<close>: the embedded client, seen at the three kinds the reconciler
  touches, the scheme, and the clock read by \<^verbatim>\<open>metav1.Now()\<close>.
\<close>
record 'w AppServiceReconciler =
  AppServices :: "(AppService, 'w) Client"
  Deployments :: "(Deployment, 'w) Client"
  Services :: "(Service, 'w) Client"
  Scheme :: Scheme
  Now :: "'w \<Rightarrow> Time \<times> 'w"

subsection \<open>Helpers of \<^verbatim>\<open>metav1\<close> and \<^verbatim>\<open>controllerutil\<close>\<close>

text \<open>
  Functions of the libraries the repository imports (apimachinery, and controller-runtime
  at the version of \<^verbatim>\<open>go.mod\<close>), written after the libraries' own code.
\<close>

text \<open>\<^verbatim>\<open>(*metav1.Time).IsZero\<close>: a nil pointer or the zero instant.\<close>
definition IsZero :: "Time option \<Rightarrow> bool" where
  "IsZero t = (case t of None \<Rightarrow> True | Some x \<Rightarrow> x = 0)"

definition ContainsFinalizer :: "'a ObjectMeta_scheme \<Rightarrow> string \<Rightarrow> bool" where
  "ContainsFinalizer o' finalizer = (finalizer \<in> set (Finalizers o'))"

definition AddFinalizer :: "'a ObjectMeta_scheme \<Rightarrow> string \<Rightarrow> 'a ObjectMeta_scheme" where
  "AddFinalizer o' finalizer =
     (if finalizer \<in> set (Finalizers o') then o'
      else o'\<lparr> Finalizers := Finalizers o' @ [finalizer] \<rparr>)"

definition RemoveFinalizer :: "'a ObjectMeta_scheme \<Rightarrow> string \<Rightarrow> 'a ObjectMeta_scheme" where
  "RemoveFinalizer o' finalizer =
     o'\<lparr> Finalizers := filter (\<lambda>f. f \<noteq> finalizer) (Finalizers o') \<rparr>"

text \<open>The group of an \<^verbatim>\<open>apiVersion\<close> string: what stands before the slash, if there is one.\<close>
definition apiGroup :: "string \<Rightarrow> string" where
  "apiGroup v = (if CHR ''/'' \<in> set v then takeWhile (\<lambda>c. c \<noteq> CHR ''/'') v else [])"

definition referSameObject :: "OwnerReference \<Rightarrow> OwnerReference \<Rightarrow> bool" where
  "referSameObject a b =
     (apiGroup (APIVersion a) = apiGroup (APIVersion b) \<and>
      OwnerReference.Kind a = OwnerReference.Kind b \<and>
      OwnerReference.Name a = OwnerReference.Name b)"

fun upsertOwnerRef :: "OwnerReference \<Rightarrow> OwnerReference list \<Rightarrow> OwnerReference list" where
  "upsertOwnerRef ref [] = [ref]"
| "upsertOwnerRef ref (x # xs) =
     (if referSameObject x ref then ref # xs else x # upsertOwnerRef ref xs)"

text \<open>
  \<^verbatim>\<open>controllerutil.SetControllerReference\<close>: it refuses an owner in another namespace, an
  owner whose kind the scheme does not know and an object that another controller owns;
  otherwise it puts the controller reference among the owner references of the object.
\<close>
definition SetControllerReference ::
  "'a ObjectMeta_scheme \<Rightarrow> 'b ObjectMeta_scheme \<Rightarrow> Scheme \<Rightarrow> error option \<times> 'b ObjectMeta_scheme" where
  "SetControllerReference owner controlled scheme =
     (if ObjectMeta.Namespace owner \<noteq> [] \<and>
         (ObjectMeta.Namespace controlled = [] \<or>
          ObjectMeta.Namespace owner \<noteq> ObjectMeta.Namespace controlled)
      then (Some (Other ''cross-namespace owner references are disallowed''), controlled)
      else (case scheme of
        None \<Rightarrow> (Some (Other ''no kind is registered for the type''), controlled)
      | Some gvk \<Rightarrow>
          (let ref = \<lparr> APIVersion = (if Group gvk = [] then Version gvk
                                       else Group gvk @ ''/'' @ Version gvk),
                       OwnerReference.Kind = GroupVersionKind.Kind gvk,
                       OwnerReference.Name = ObjectMeta.Name owner,
                       OwnerReference.UID = ObjectMeta.UID owner,
                       Controller = Some True,
                       BlockOwnerDeletion = Some True \<rparr>
           in (case find (\<lambda>x. Controller x = Some True) (OwnerReferences controlled) of
                 Some existing \<Rightarrow>
                   if referSameObject existing ref
                   then (None, controlled\<lparr> OwnerReferences :=
                           upsertOwnerRef ref (OwnerReferences controlled) \<rparr>)
                   else (Some (Other ''Object is already owned by another controller''), controlled)
               | None \<Rightarrow>
                   (None, controlled\<lparr> OwnerReferences :=
                      upsertOwnerRef ref (OwnerReferences controlled) \<rparr>)))))"

text \<open>\<^verbatim>\<open>intstr.FromInt\<close>: the \<^verbatim>\<open>int\<close> is converted to \<^verbatim>\<open>int32\<close>.\<close>
definition FromInt :: "int \<Rightarrow> IntOrString" where
  "FromInt val = IntVal (word_of_int val)"

section \<open>The condition tracker: \<^verbatim>\<open>updateCondition\<close>\<close>

text \<open>
  The loop over \<^verbatim>\<open>app.Status.Conditions\<close>. It returns at the first condition of the type
  (\<open>Some\<close> of the list as the loop left it: that entry overwritten when its status differs,
  nothing written otherwise), or runs to the end (\<open>None\<close>).
\<close>
fun updateCondition_loop :: "Condition list \<Rightarrow> Condition \<Rightarrow> Condition list option" where
  "updateCondition_loop [] condition = None"
| "updateCondition_loop (c # cs) condition =
     (if Condition.Type c = Condition.Type condition
      then (if Condition.Status c \<noteq> Condition.Status condition
            then Some (condition # cs) else Some (c # cs))
      else map_option ((#) c) (updateCondition_loop cs condition))"

definition updateCondition ::
  "'w AppServiceReconciler \<Rightarrow> AppService \<Rightarrow> string \<Rightarrow> ConditionStatus \<Rightarrow> string \<Rightarrow> string \<Rightarrow>
     'w \<Rightarrow> AppService \<times> 'w" where
  "updateCondition r app condType status reason message w =
     (let (now, w) = Now r w;
          condition = \<lparr> Condition.Type = condType, Condition.Status = status, Reason = reason,
                        Message = message, LastTransitionTime = now, ObservedGeneration = 0 \<rparr>
      in (case updateCondition_loop (Conditions (AppService.Status app)) condition of
            Some conds \<Rightarrow>
              (app\<lparr> AppService.Status := (AppService.Status app)\<lparr> Conditions := conds \<rparr> \<rparr>, w)
          | None \<Rightarrow>
              (app\<lparr> AppService.Status := (AppService.Status app)
                  \<lparr> Conditions := Conditions (AppService.Status app) @ [condition] \<rparr> \<rparr>, w)))"

text \<open>A sequence of calls of \<^verbatim>\<open>updateCondition\<close> on one record, each with its arguments.\<close>
fun updateConditions ::
  "'w AppServiceReconciler \<Rightarrow> AppService \<Rightarrow> (string \<times> ConditionStatus \<times> string \<times> string) list \<Rightarrow>
     'w \<Rightarrow> AppService \<times> 'w" where
  "updateConditions r app [] w = (app, w)"
| "updateConditions r app ((condType, status, reason, message) # calls) w =
     (let (app, w) = updateCondition r app condType status reason message w
      in updateConditions r app calls w)"

section \<open>The synthesizers\<close>

definition deploymentForAppService :: "'w AppServiceReconciler \<Rightarrow> AppService \<Rightarrow> Deployment" where
  "deploymentForAppService r app =
     (let labels = [(''app'', ObjectMeta.Name app)];
          replicas = AppServiceSpec.Replicas (AppService.Spec app);
          containers = [zero_Container\<lparr>
            Container.Name := ObjectMeta.Name app,
            Container.Image := AppServiceSpec.Image (AppService.Spec app),
            Container.Ports := [\<lparr> ContainerPort = AppServiceSpec.Port (AppService.Spec app) \<rparr>] \<rparr>];
          containers =
            (if length (Environment (AppService.Spec app)) > 0
             then containers[0 := (containers ! 0)\<lparr> Env :=
                    map (\<lambda>(k, v). \<lparr> EnvVar.Name = k, Value = v \<rparr>) (Environment (AppService.Spec app)) \<rparr>]
             else containers);
          containers =
            (if CPU (AppServiceSpec.Resources (AppService.Spec app)) \<noteq> [] \<or>
                Memory (AppServiceSpec.Resources (AppService.Spec app)) \<noteq> []
             then containers[0 := (containers ! 0)\<lparr> Container.Resources :=
                    \<lparr> Limits = Some [], Requests = Some [] \<rparr> \<rparr>]
             else containers);
          dep = zero_Deployment\<lparr>
            ObjectMeta.Name := ObjectMeta.Name app,
            ObjectMeta.Namespace := ObjectMeta.Namespace app,
            Deployment.Spec := \<lparr>
              DeploymentSpec.Replicas = Some replicas,
              DeploymentSpec.Selector = Some \<lparr> MatchLabels = labels \<rparr>,
              Template = zero_PodTemplateSpec\<lparr>
                Labels := labels,
                PodTemplateSpec.Spec := \<lparr> Containers = containers \<rparr> \<rparr> \<rparr> \<rparr>
      in snd (SetControllerReference app dep (Scheme r)))"

definition serviceForAppService :: "'w AppServiceReconciler \<Rightarrow> AppService \<Rightarrow> Service" where
  "serviceForAppService r app =
     (let labels = [(''app'', ObjectMeta.Name app)];
          svc = zero_Service\<lparr>
            ObjectMeta.Name := ObjectMeta.Name app,
            ObjectMeta.Namespace := ObjectMeta.Namespace app,
            Service.Spec := \<lparr>
              ServiceSpec.Selector = labels,
              ServiceSpec.Ports = [\<lparr>
                ServicePort.Port = AppServiceSpec.Port (AppService.Spec app),
                TargetPort = FromInt (sint (AppServiceSpec.Port (AppService.Spec app))) \<rparr>],
              ServiceSpec.Type = ''ClusterIP'' \<rparr> \<rparr>
      in snd (SetControllerReference app svc (Scheme r)))"

section \<open>The reconcile state machine\<close>

text \<open>\<^verbatim>\<open>cleanupResources\<close> writes a log line and returns nil.\<close>
definition cleanupResources :: "'w AppServiceReconciler \<Rightarrow> AppService \<Rightarrow> 'w \<Rightarrow> error option \<times> 'w" where
  "cleanupResources r app w = (None, w)"

text \<open>
  \<^verbatim>\<open>Reconcile\<close> from the fetch of the Deployment to its end: the code after the
  \<^verbatim>\<open>if\<close>/\<^verbatim>\<open>else\<close> on the deletion timestamp, which the non-deleting branch falls into with
  or without having added the finalizer.
\<close>
definition Reconcile_dependents :: "'w AppServiceReconciler \<Rightarrow> AppService \<Rightarrow> 'w \<Rightarrow> outcome \<times> 'w" where
  "Reconcile_dependents r appService w =
     (let ((err, deployment), w) =
            Get (Deployments r)
              \<lparr> NamespacedName.Namespace = ObjectMeta.Namespace appService,
                NamespacedName.Name = ObjectMeta.Name appService \<rparr> zero_Deployment w
      in (case err of
        Some e \<Rightarrow>
          if IsNotFound e then
            (let dep = deploymentForAppService r appService;
                 ((err, dep), w) = Create (Deployments r) dep w
             in (case err of
                   Some e \<Rightarrow> (Return zero_Result (Some e), w)
                 | None \<Rightarrow> (Return (zero_Result\<lparr> Requeue := True \<rparr>) None, w)))
          else (Return zero_Result (Some e), w)
      | None \<Rightarrow>
          (case DeploymentSpec.Replicas (Deployment.Spec deployment) of
            None \<Rightarrow> (Panic, w)
          | Some replicas \<Rightarrow>
              if replicas \<noteq> AppServiceSpec.Replicas (AppService.Spec appService) then
                (let deployment = deployment\<lparr> Deployment.Spec := (Deployment.Spec deployment)
                       \<lparr> DeploymentSpec.Replicas :=
                           Some (AppServiceSpec.Replicas (AppService.Spec appService)) \<rparr> \<rparr>;
                     ((err, deployment), w) = Update (Deployments r) deployment w
                 in (case err of
                       Some e \<Rightarrow> (Return zero_Result (Some e), w)
                     | None \<Rightarrow> (Return (zero_Result\<lparr> Requeue := True \<rparr>) None, w)))
              else
                (let ((err, service), w) =
                       Get (Services r)
                         \<lparr> NamespacedName.Namespace = ObjectMeta.Namespace appService,
                           NamespacedName.Name = ObjectMeta.Name appService \<rparr> zero_Service w
                 in (case err of
                   Some e \<Rightarrow>
                     if IsNotFound e then
                       (let svc = serviceForAppService r appService;
                            ((err, svc), w) = Create (Services r) svc w
                        in (case err of
                              Some e \<Rightarrow> (Return zero_Result (Some e), w)
                            | None \<Rightarrow> (Return (zero_Result\<lparr> Requeue := True \<rparr>) None, w)))
                     else (Return zero_Result (Some e), w)
                 | None \<Rightarrow>
                     (let appService = appService\<lparr> AppService.Status := (AppService.Status appService)
                            \<lparr> AppServiceStatus.AvailableReplicas :=
                                DeploymentStatus.AvailableReplicas (Deployment.Status deployment) \<rparr> \<rparr>;
                          (now, w) = Now r w;
                          appService = appService\<lparr> AppService.Status := (AppService.Status appService)
                            \<lparr> LastReconcileTime := now \<rparr> \<rparr>;
                          (appService, w) =
                            (if DeploymentStatus.AvailableReplicas (Deployment.Status deployment) =
                                AppServiceSpec.Replicas (AppService.Spec appService)
                             then updateCondition r
                                    (appService\<lparr> AppService.Status := (AppService.Status appService)
                                       \<lparr> Phase := ''Running'' \<rparr> \<rparr>)
                                    ''Ready'' ConditionTrue ''DeploymentReady''
                                    ''All replicas are available'' w
                             else updateCondition r
                                    (appService\<lparr> AppService.Status := (AppService.Status appService)
                                       \<lparr> Phase := ''Pending'' \<rparr> \<rparr>)
                                    ''Ready'' ConditionFalse ''DeploymentNotReady''
                                    ''Waiting for replicas'' w);
                          ((err, appService), w) = StatusUpdate (AppServices r) appService w
                      in (case err of
                            Some e \<Rightarrow> (Return zero_Result (Some e), w)
                          | None \<Rightarrow>
                              (Return (zero_Result\<lparr> RequeueAfter := 30 * Second \<rparr>) None, w))))))))"

definition Reconcile :: "'w AppServiceReconciler \<Rightarrow> Request \<Rightarrow> 'w \<Rightarrow> outcome \<times> 'w" where
  "Reconcile r req w =
     (let ((err, appService), w) = Get (AppServices r) req zero_AppService w
      in (case err of
        Some e \<Rightarrow>
          if IsNotFound e then (Return zero_Result None, w)
          else (Return zero_Result (Some e), w)
      | None \<Rightarrow>
          if IsZero (DeletionTimestamp appService) then
            (if \<not> ContainsFinalizer appService ''example.com/finalizer'' then
               (let appService = AddFinalizer appService ''example.com/finalizer'';
                    ((err, appService), w) = Update (AppServices r) appService w
                in (case err of
                      Some e \<Rightarrow> (Return zero_Result (Some e), w)
                    | None \<Rightarrow> Reconcile_dependents r appService w))
             else Reconcile_dependents r appService w)
          else
            (if ContainsFinalizer appService ''example.com/finalizer'' then
               (let (err, w) = cleanupResources r appService w
                in (case err of
                      Some e \<Rightarrow> (Return zero_Result (Some e), w)
                    | None \<Rightarrow>
                        (let appService = RemoveFinalizer appService ''example.com/finalizer'';
                             ((err, appService), w) = Update (AppServices r) appService w
                         in (case err of
                               Some e \<Rightarrow> (Return zero_Result (Some e), w)
                             | None \<Rightarrow> (Return zero_Result None, w)))))
             else (Return zero_Result None, w))))"

section \<open>The accessor helpers of \<^verbatim>\<open>BaseReconciler\<close>\<close>

text \<open>\<^verbatim>\<open>client.ObjectKeyFromObject\<close>.\<close>
definition ObjectKeyFromObject :: "'a ObjectMeta_scheme \<Rightarrow> NamespacedName" where
  "ObjectKeyFromObject obj =
     \<lparr> NamespacedName.Namespace = ObjectMeta.Namespace obj, NamespacedName.Name = ObjectMeta.Name obj \<rparr>"

text \<open>
  \<^verbatim>\<open>GetObject\<close> and \<^verbatim>\<open>CreateOrUpdate\<close> return the error, the caller's object as the call
  left it, and the world.
\<close>
definition GetObject ::
  "('a ObjectMeta_scheme, 'w) Client \<Rightarrow> NamespacedName \<Rightarrow> 'a ObjectMeta_scheme \<Rightarrow> 'w \<Rightarrow>
     (error option \<times> 'a ObjectMeta_scheme) \<times> 'w" where
  "GetObject c key obj w =
     (let ((err, obj), w) = Get c key obj w
      in (case err of
            Some e \<Rightarrow> if IsNotFound e then ((None, obj), w) else ((Some e, obj), w)
          | None \<Rightarrow> ((None, obj), w)))"

definition CreateOrUpdate ::
  "('a ObjectMeta_scheme, 'w) Client \<Rightarrow> 'a ObjectMeta_scheme \<Rightarrow> 'w \<Rightarrow>
     (error option \<times> 'a ObjectMeta_scheme) \<times> 'w" where
  "CreateOrUpdate c obj w =
     (let key = ObjectKeyFromObject obj;
          existing = obj;
          ((err, existing), w) = Get c key existing w
      in (case err of
            Some e \<Rightarrow> if IsNotFound e then Create c obj w else ((Some e, obj), w)
          | None \<Rightarrow>
              (let obj = obj\<lparr> ResourceVersion := ResourceVersion existing \<rparr>
               in Update c obj w)))"

section \<open>Observing a pass: the calls it makes\<close>

text \<open>
  To speak of the store calls a pass makes, a client is wrapped so that it records every
  call with its answer, in order, beside the world. The wrapped client answers as the
  client it wraps.
\<close>

datatype 'o call = GetCall NamespacedName | CreateCall 'o | UpdateCall 'o | StatusUpdateCall 'o

datatype event =
    AppServiceEv "AppService call" "error option \<times> AppService"
  | DeploymentEv "Deployment call" "error option \<times> Deployment"
  | ServiceEv "Service call" "error option \<times> Service"

definition recording ::
  "('o call \<Rightarrow> error option \<times> 'o \<Rightarrow> 'e) \<Rightarrow> ('o, 'w) Client \<Rightarrow> ('o, 'w \<times> 'e list) Client" where
  "recording ev c =
     \<lparr> Get = (\<lambda>key obj (w, tr).
         (let (res, w) = Get c key obj w in (res, (w, tr @ [ev (GetCall key) res])))),
       Create = (\<lambda>obj (w, tr).
         (let (res, w) = Create c obj w in (res, (w, tr @ [ev (CreateCall obj) res])))),
       Update = (\<lambda>obj (w, tr).
         (let (res, w) = Update c obj w in (res, (w, tr @ [ev (UpdateCall obj) res])))),
       StatusUpdate = (\<lambda>obj (w, tr).
         (let (res, w) = StatusUpdate c obj w in (res, (w, tr @ [ev (StatusUpdateCall obj) res])))) \<rparr>"

definition traced :: "'w AppServiceReconciler \<Rightarrow> ('w \<times> event list) AppServiceReconciler" where
  "traced r =
     \<lparr> AppServices = recording AppServiceEv (AppServices r),
       Deployments = recording DeploymentEv (Deployments r),
       Services = recording ServiceEv (Services r),
       Scheme = Scheme r,
       Now = (\<lambda>(w, tr). (let (t, w) = Now r w in (t, (w, tr)))) \<rparr>"

text \<open>The events that touch a dependent resource (the workload or the network endpoint).\<close>
fun on_dependent :: "event \<Rightarrow> bool" where
  "on_dependent (AppServiceEv c res) = False"
| "on_dependent (DeploymentEv c res) = True"
| "on_dependent (ServiceEv c res) = True"

fun on_service :: "event \<Rightarrow> bool" where
  "on_service (ServiceEv c res) = True"
| "on_service _ = False"

section \<open>A store with version stamps\<close>

text \<open>
  Modelled from the spec: the control-plane store behind the client, a collaborator that
  is no code of the repository (the spec describes it in its sections on the resource
  accessor, the external interfaces and the error taxonomy). Objects are held by key; a
  fetch of an absent key reports not-found and writes nothing; a created object gets a
  first version stamp; an update must carry the version stamp of the stored object, else
  it is refused with \<open>Conflict\<close>, and a successful update changes the stamp; an object that
  is being deleted disappears when an update leaves it no finalizer. \<open>sel\<close> and \<open>put\<close> read
  and write the objects of one kind in the world, \<open>merge stored obj\<close> is what a status
  update stores.
\<close>

definition lookup :: "NamespacedName \<Rightarrow> 'a ObjectMeta_scheme list \<Rightarrow> 'a ObjectMeta_scheme option" where
  "lookup key objs = find (\<lambda>x. ObjectKeyFromObject x = key) objs"

definition store :: "'a ObjectMeta_scheme \<Rightarrow> 'a ObjectMeta_scheme list \<Rightarrow> 'a ObjectMeta_scheme list" where
  "store new objs =
     (if \<not> IsZero (DeletionTimestamp new) \<and> Finalizers new = []
      then filter (\<lambda>x. ObjectKeyFromObject x \<noteq> ObjectKeyFromObject new) objs
      else map (\<lambda>x. if ObjectKeyFromObject x = ObjectKeyFromObject new then new else x) objs)"

definition store_update ::
  "('w \<Rightarrow> 'a ObjectMeta_scheme list) \<Rightarrow> ('a ObjectMeta_scheme list \<Rightarrow> 'w \<Rightarrow> 'w) \<Rightarrow>
   ('a ObjectMeta_scheme \<Rightarrow> 'a ObjectMeta_scheme \<Rightarrow> 'a ObjectMeta_scheme) \<Rightarrow>
   'a ObjectMeta_scheme \<Rightarrow> 'w \<Rightarrow> (error option \<times> 'a ObjectMeta_scheme) \<times> 'w" where
  "store_update sel put merge obj w =
     (case lookup (ObjectKeyFromObject obj) (sel w) of
        None \<Rightarrow> ((Some NotFound, obj), w)
      | Some stored \<Rightarrow>
          if ResourceVersion obj \<noteq> ResourceVersion stored then ((Some Conflict, obj), w)
          else (let new = (merge stored obj)\<lparr> ResourceVersion := CHR ''1'' # ResourceVersion stored \<rparr>
                in ((None, new), put (store new (sel w)) w)))"

definition api_client ::
  "('w \<Rightarrow> 'a ObjectMeta_scheme list) \<Rightarrow> ('a ObjectMeta_scheme list \<Rightarrow> 'w \<Rightarrow> 'w) \<Rightarrow>
   ('a ObjectMeta_scheme \<Rightarrow> 'a ObjectMeta_scheme \<Rightarrow> 'a ObjectMeta_scheme) \<Rightarrow>
   ('a ObjectMeta_scheme, 'w) Client" where
  "api_client sel put merge =
     \<lparr> Get = (\<lambda>key obj w.
         (case lookup key (sel w) of
            None \<Rightarrow> ((Some NotFound, obj), w)
          | Some stored \<Rightarrow> ((None, stored), w))),
       Create = (\<lambda>obj w.
         (case lookup (ObjectKeyFromObject obj) (sel w) of
            Some stored \<Rightarrow> ((Some AlreadyExists, obj), w)
          | None \<Rightarrow>
              (let new = obj\<lparr> ResourceVersion := ''1'' \<rparr>
               in ((None, new), put (sel w @ [new]) w)))),
       Update = store_update sel put (\<lambda>stored obj. obj),
       StatusUpdate = store_update sel put merge \<rparr>"

text \<open>
  Another writer between two calls of the program: the client \<open>c\<close>, with the step \<open>env\<close> of
  the environment taken on the world right after every \<open>Get\<close> has read it.
\<close>
definition writer_after_Get :: "('w \<Rightarrow> 'w) \<Rightarrow> ('o, 'w) Client \<Rightarrow> ('o, 'w) Client" where
  "writer_after_Get env c =
     \<lparr> Get = (\<lambda>key obj w. (let (res, w) = Get c key obj w in (res, env w))),
       Create = Create c, Update = Update c, StatusUpdate = StatusUpdate c \<rparr>"

text \<open>A cluster holding the three kinds and a clock that ticks at every reading.\<close>
record Cluster =
  AppServiceObjs :: "AppService list"
  DeploymentObjs :: "Deployment list"
  ServiceObjs :: "Service list"
  Clock :: Time

definition cluster_reconciler :: "Scheme \<Rightarrow> Cluster AppServiceReconciler" where
  "cluster_reconciler scheme =
     \<lparr> AppServices = api_client AppServiceObjs (\<lambda>objs w. w\<lparr> AppServiceObjs := objs \<rparr>)
         (\<lambda>stored obj. stored\<lparr> AppService.Status := AppService.Status obj \<rparr>),
       Deployments = api_client DeploymentObjs (\<lambda>objs w. w\<lparr> DeploymentObjs := objs \<rparr>)
         (\<lambda>stored obj. stored\<lparr> Deployment.Status := Deployment.Status obj \<rparr>),
       Services = api_client ServiceObjs (\<lambda>objs w. w\<lparr> ServiceObjs := objs \<rparr>)
         (\<lambda>stored obj. obj),
       Scheme = scheme,
       Now = (\<lambda>w. (Clock w, w\<lparr> Clock := Suc (Clock w) \<rparr>)) \<rparr>"

section \<open>Observations on a pass\<close>

text \<open>The first condition of type \<open>Ready\<close> of the record has the status \<open>s\<close>.\<close>
definition ready_is :: "ConditionStatus \<Rightarrow> AppService \<Rightarrow> bool" where
  "ready_is s a =
     (case find (\<lambda>c. Condition.Type c = ''Ready'') (Conditions (AppService.Status a)) of
        None \<Rightarrow> False
      | Some c \<Rightarrow> Condition.Status c = s)"

text \<open>The error a call was answered with.\<close>
fun answer_error :: "event \<Rightarrow> error option" where
  "answer_error (AppServiceEv c res) = fst res"
| "answer_error (DeploymentEv c res) = fst res"
| "answer_error (ServiceEv c res) = fst res"

text \<open>The records a pass handed to \<^verbatim>\<open>Status().Update\<close>.\<close>
fun status_writes :: "event list \<Rightarrow> AppService list" where
  "status_writes [] = []"
| "status_writes (AppServiceEv (StatusUpdateCall a) res # evs) = a # status_writes evs"
| "status_writes (ev # evs) = status_writes evs"

fun verb :: "'o call \<Rightarrow> string" where
  "verb (GetCall key) = ''Get''"
| "verb (CreateCall obj) = ''Create''"
| "verb (UpdateCall obj) = ''Update''"
| "verb (StatusUpdateCall obj) = ''Status().Update''"

text \<open>A call by its method and the kind it is made on.\<close>
fun operation :: "event \<Rightarrow> string \<times> string" where
  "operation (AppServiceEv c res) = (verb c, ''AppService'')"
| "operation (DeploymentEv c res) = (verb c, ''Deployment'')"
| "operation (ServiceEv c res) = (verb c, ''Service'')"

text \<open>
  The calls \<^verbatim>\<open>Reconcile\<close> makes from the fetch of the Deployment on, for a record \<open>app\<close>, with
  the outcome of the pass: one rule for every way through that code.
\<close>
inductive dependents_pass :: "'w AppServiceReconciler \<Rightarrow> AppService \<Rightarrow> outcome \<Rightarrow> event list \<Rightarrow> bool"
  for r :: "'w AppServiceReconciler" and app :: AppService where
  deployment_get_failed:
    "\<not> IsNotFound e \<Longrightarrow>
     dependents_pass r app (Return zero_Result (Some e))
       [DeploymentEv (GetCall (ObjectKeyFromObject app)) (Some e, d)]"
| deployment_created:
    "IsNotFound e \<Longrightarrow>
     dependents_pass r app
       (Return (if err = None then zero_Result\<lparr> Requeue := True \<rparr> else zero_Result) err)
       [DeploymentEv (GetCall (ObjectKeyFromObject app)) (Some e, d),
        DeploymentEv (CreateCall (deploymentForAppService r app)) (err, d')]"
| deployment_without_replicas:
    "DeploymentSpec.Replicas (Deployment.Spec d) = None \<Longrightarrow>
     dependents_pass r app Panic [DeploymentEv (GetCall (ObjectKeyFromObject app)) (None, d)]"
| deployment_scaled:
    "DeploymentSpec.Replicas (Deployment.Spec d) = Some n \<Longrightarrow>
     n \<noteq> AppServiceSpec.Replicas (AppService.Spec app) \<Longrightarrow>
     dependents_pass r app
       (Return (if err = None then zero_Result\<lparr> Requeue := True \<rparr> else zero_Result) err)
       [DeploymentEv (GetCall (ObjectKeyFromObject app)) (None, d),
        DeploymentEv (UpdateCall (d\<lparr> Deployment.Spec := (Deployment.Spec d)
           \<lparr> DeploymentSpec.Replicas := Some (AppServiceSpec.Replicas (AppService.Spec app)) \<rparr> \<rparr>))
          (err, d')]"
| service_get_failed:
    "DeploymentSpec.Replicas (Deployment.Spec d) = Some (AppServiceSpec.Replicas (AppService.Spec app)) \<Longrightarrow>
     \<not> IsNotFound e \<Longrightarrow>
     dependents_pass r app (Return zero_Result (Some e))
       [DeploymentEv (GetCall (ObjectKeyFromObject app)) (None, d),
        ServiceEv (GetCall (ObjectKeyFromObject app)) (Some e, s)]"
| service_created:
    "DeploymentSpec.Replicas (Deployment.Spec d) = Some (AppServiceSpec.Replicas (AppService.Spec app)) \<Longrightarrow>
     IsNotFound e \<Longrightarrow>
     dependents_pass r app
       (Return (if err = None then zero_Result\<lparr> Requeue := True \<rparr> else zero_Result) err)
       [DeploymentEv (GetCall (ObjectKeyFromObject app)) (None, d),
        ServiceEv (GetCall (ObjectKeyFromObject app)) (Some e, s),
        ServiceEv (CreateCall (serviceForAppService r app)) (err, s')]"
| status_written:
    "DeploymentSpec.Replicas (Deployment.Spec d) = Some (AppServiceSpec.Replicas (AppService.Spec app)) \<Longrightarrow>
     a = app\<lparr> AppService.Status := AppService.Status a \<rparr> \<Longrightarrow>
     AppServiceStatus.AvailableReplicas (AppService.Status a) =
       DeploymentStatus.AvailableReplicas (Deployment.Status d) \<Longrightarrow>
     Phase (AppService.Status a) =
       (if DeploymentStatus.AvailableReplicas (Deployment.Status d) =
           AppServiceSpec.Replicas (AppService.Spec app)
        then ''Running'' else ''Pending'') \<Longrightarrow>
     ready_is (if DeploymentStatus.AvailableReplicas (Deployment.Status d) =
                  AppServiceSpec.Replicas (AppService.Spec app)
               then ConditionTrue else ConditionFalse) a \<Longrightarrow>
     dependents_pass r app
       (Return (if err = None then zero_Result\<lparr> RequeueAfter := 30 * Second \<rparr> else zero_Result) err)
       [DeploymentEv (GetCall (ObjectKeyFromObject app)) (None, d),
        ServiceEv (GetCall (ObjectKeyFromObject app)) (None, s),
        AppServiceEv (StatusUpdateCall a) (err, a')]"

text \<open>The calls of a whole pass of \<^verbatim>\<open>Reconcile\<close> on the request \<open>req\<close>, with its outcome.\<close>
inductive reconcile_pass :: "'w AppServiceReconciler \<Rightarrow> Request \<Rightarrow> outcome \<Rightarrow> event list \<Rightarrow> bool"
  for r :: "'w AppServiceReconciler" and req :: Request where
  record_not_found:
    "IsNotFound e \<Longrightarrow>
     reconcile_pass r req (Return zero_Result None) [AppServiceEv (GetCall req) (Some e, a)]"
| record_get_failed:
    "\<not> IsNotFound e \<Longrightarrow>
     reconcile_pass r req (Return zero_Result (Some e)) [AppServiceEv (GetCall req) (Some e, a)]"
| finalizer_add_failed:
    "IsZero (DeletionTimestamp app) \<Longrightarrow> \<not> ContainsFinalizer app ''example.com/finalizer'' \<Longrightarrow>
     reconcile_pass r req (Return zero_Result (Some e))
       [AppServiceEv (GetCall req) (None, app),
        AppServiceEv (UpdateCall (AddFinalizer app ''example.com/finalizer'')) (Some e, a)]"
| finalizer_added:
    "IsZero (DeletionTimestamp app) \<Longrightarrow> \<not> ContainsFinalizer app ''example.com/finalizer'' \<Longrightarrow>
     dependents_pass r app' out suf \<Longrightarrow>
     reconcile_pass r req out
       ([AppServiceEv (GetCall req) (None, app),
         AppServiceEv (UpdateCall (AddFinalizer app ''example.com/finalizer'')) (None, app')] @ suf)"
| finalizer_present:
    "IsZero (DeletionTimestamp app) \<Longrightarrow> ContainsFinalizer app ''example.com/finalizer'' \<Longrightarrow>
     dependents_pass r app out suf \<Longrightarrow>
     reconcile_pass r req out (AppServiceEv (GetCall req) (None, app) # suf)"
| finalizer_removed:
    "\<not> IsZero (DeletionTimestamp app) \<Longrightarrow> ContainsFinalizer app ''example.com/finalizer'' \<Longrightarrow>
     reconcile_pass r req (Return zero_Result err)
       [AppServiceEv (GetCall req) (None, app),
        AppServiceEv (UpdateCall (RemoveFinalizer app ''example.com/finalizer'')) (err, a)]"
| deleted_without_finalizer:
    "\<not> IsZero (DeletionTimestamp app) \<Longrightarrow> \<not> ContainsFinalizer app ''example.com/finalizer'' \<Longrightarrow>
     reconcile_pass r req (Return zero_Result None) [AppServiceEv (GetCall req) (None, app)]"

section \<open>Example clusters\<close>

definition app_scheme :: Scheme where
  "app_scheme = Some \<lparr> Group = ''example.com'', Version = ''v1alpha1'', GroupVersionKind.Kind = ''AppService'' \<rparr>"

text \<open>The record \<^verbatim>\<open>default/web\<close>: three replicas of an image on port 8080, finalizer in place.\<close>
definition web :: AppService where
  "web = zero_AppService\<lparr>
     ObjectMeta.Name := ''web'', ObjectMeta.Namespace := ''default'', ObjectMeta.UID := ''u1'',
     ResourceVersion := ''1'', Finalizers := [''example.com/finalizer''],
     AppService.Spec := \<lparr> AppServiceSpec.Replicas = 3, AppServiceSpec.Image = ''nginx:1.21'',
       AppServiceSpec.Port = 8080, Environment = [],
       AppServiceSpec.Resources = \<lparr> CPU = [], Memory = [] \<rparr> \<rparr> \<rparr>"

definition web_key :: Request where
  "web_key = \<lparr> NamespacedName.Namespace = ''default'', NamespacedName.Name = ''web'' \<rparr>"

text \<open>Its workload with all three replicas available, and its network endpoint.\<close>
definition web_deployment :: Deployment where
  "web_deployment = (deploymentForAppService (cluster_reconciler app_scheme) web)\<lparr>
     ResourceVersion := ''1'',
     Deployment.Status := \<lparr> DeploymentStatus.AvailableReplicas = 3 \<rparr> \<rparr>"

definition web_service :: Service where
  "web_service = (serviceForAppService (cluster_reconciler app_scheme) web)\<lparr> ResourceVersion := ''1'' \<rparr>"

definition cluster_ready :: Cluster where
  "cluster_ready = \<lparr> AppServiceObjs = [web], DeploymentObjs = [web_deployment],
     ServiceObjs = [web_service], Clock = 100 \<rparr>"

text \<open>The same cluster when the record does not carry the finalizer yet.\<close>
definition cluster_unmarked :: Cluster where
  "cluster_unmarked = cluster_ready\<lparr> AppServiceObjs := [web\<lparr> Finalizers := [] \<rparr>] \<rparr>"

text \<open>The same cluster when the record is being deleted.\<close>
definition cluster_deleting :: Cluster where
  "cluster_deleting = cluster_ready\<lparr> AppServiceObjs := [web\<lparr> DeletionTimestamp := Some 50 \<rparr>] \<rparr>"

text \<open>The same cluster when the record asks for five replicas.\<close>
definition cluster_scaled :: Cluster where
  "cluster_scaled = cluster_ready\<lparr> AppServiceObjs := [web\<lparr> AppService.Spec := (AppService.Spec web)
     \<lparr> AppServiceSpec.Replicas := 5 \<rparr> \<rparr>] \<rparr>"

text \<open>The same cluster when the record has been edited to the port 70000.\<close>
definition web_bad_port :: AppService where
  "web_bad_port = web\<lparr> AppService.Spec := (AppService.Spec web)\<lparr> AppServiceSpec.Port := 70000 \<rparr> \<rparr>"

definition cluster_bad_port :: Cluster where
  "cluster_bad_port = cluster_ready\<lparr> AppServiceObjs := [web_bad_port] \<rparr>"

text \<open>A cluster that holds nothing but a record asking for \<open>-1\<close> replicas.\<close>
definition web_negative :: AppService where
  "web_negative = web\<lparr> AppService.Spec := (AppService.Spec web)\<lparr> AppServiceSpec.Replicas := - 1 \<rparr> \<rparr>"

definition cluster_negative :: Cluster where
  "cluster_negative = \<lparr> AppServiceObjs = [web_negative], DeploymentObjs = [], ServiceObjs = [],
     Clock = 100 \<rparr>"

text \<open>The store of one kind on its own: the world is the list of the objects.\<close>
definition list_api :: "('a ObjectMeta_scheme, 'a ObjectMeta_scheme list) Client" where
  "list_api = api_client (\<lambda>w. w) (\<lambda>objs w. objs) (\<lambda>stored obj. obj)"


text \<open>The record \<open>web\<close> as a pass writes its status when all replicas are available, read
  at the clock readings 100 and 101.\<close>
definition web_running :: AppService where
  "web_running = web\<lparr> AppService.Status := \<lparr>
     Phase = ''Running'', AppServiceStatus.AvailableReplicas = 3,
     Conditions = [\<lparr> Condition.Type = ''Ready'', Condition.Status = ConditionTrue,
       Reason = ''DeploymentReady'', Message = ''All replicas are available'',
       LastTransitionTime = 101, ObservedGeneration = 0 \<rparr>],
     LastReconcileTime = 100 \<rparr> \<rparr>"

section \<open>Evaluating the examples\<close>

lemmas example_defs =
  Reconcile_def Reconcile_dependents_def traced_def recording_def cluster_reconciler_def
  api_client_def store_update_def store_def lookup_def ObjectKeyFromObject_def updateCondition_def
  deploymentForAppService_def serviceForAppService_def SetControllerReference_def
  cleanupResources_def IsZero_def ContainsFinalizer_def AddFinalizer_def RemoveFinalizer_def
  FromInt_def referSameObject_def apiGroup_def ready_is_def
  zero_AppService_def zero_Deployment_def zero_Service_def zero_Container_def
  zero_PodTemplateSpec_def zero_ResourceRequirements_def zero_Result_def Second_def Let_def
  app_scheme_def web_def web_key_def web_deployment_def web_service_def cluster_ready_def

section \<open>Properties of the condition tracker\<close>

lemma updateCondition_loop_None:
  "updateCondition_loop cs cond = None \<longleftrightarrow> Condition.Type cond \<notin> Condition.Type ` set cs"
  by (induction cs) auto

lemma updateCondition_loop_None_find:
  "updateCondition_loop cs cond = None \<longleftrightarrow>
     find (\<lambda>c. Condition.Type c = Condition.Type cond) cs = None"
  by (induction cs) auto

lemma updateCondition_loop_types:
  "updateCondition_loop cs cond = Some cs' \<Longrightarrow> map Condition.Type cs' = map Condition.Type cs"
  by (induction cs arbitrary: cs') (auto split: if_splits)

lemma updateCondition_loop_same:
  "find (\<lambda>c. Condition.Type c = Condition.Type cond) cs = Some c \<Longrightarrow>
   Condition.Status c = Condition.Status cond \<Longrightarrow> updateCondition_loop cs cond = Some cs"
  by (induction cs) (auto split: if_splits)

lemma updateCondition_loop_find:
  "updateCondition_loop cs cond = Some cs' \<Longrightarrow>
   \<exists>c. find (\<lambda>c. Condition.Type c = Condition.Type cond) cs' = Some c \<and>
       Condition.Status c = Condition.Status cond"
  by (induction cs arbitrary: cs') (auto split: if_splits)

text \<open>Entry by entry, the loop either leaves a condition as it is or overwrites it, and it
  overwrites only a condition of the type whose status differs.\<close>
lemma updateCondition_loop_nth:
  "updateCondition_loop cs cond = Some cs' \<Longrightarrow> i < length cs \<Longrightarrow>
   cs' ! i = cs ! i \<or>
   (cs' ! i = cond \<and> Condition.Type (cs ! i) = Condition.Type cond \<and>
    Condition.Status (cs ! i) \<noteq> Condition.Status cond)"
proof (induction cs arbitrary: cs' i)
  case Nil
  then show ?case by simp
next
  case (Cons c cs)
  show ?case
  proof (cases "Condition.Type c = Condition.Type cond")
    case True
    with Cons.prems show ?thesis by (cases i) (auto split: if_splits)
  next
    case False
    with Cons.prems obtain z where z: "updateCondition_loop cs cond = Some z" "cs' = c # z"
      by auto
    show ?thesis
    proof (cases i)
      case 0
      then show ?thesis using z by simp
    next
      case (Suc j)
      with Cons.prems have "j < length cs" by simp
      from Cons.IH[OF z(1) this] show ?thesis using z Suc by simp
    qed
  qed
qed

lemma find_append_None: "find P xs = None \<Longrightarrow> find P (xs @ ys) = find P ys"
  by (induction xs) (auto split: if_splits)

lemma count_by_type:
  "length (filter (\<lambda>c. Condition.Type c = t) cs) = length (filter (\<lambda>x. x = t) (map Condition.Type cs))"
  by (induction cs) auto

text \<open>\<^verbatim>\<open>updateCondition\<close> with the clock reading and the loop spelled out.\<close>
lemma updateCondition_unfold:
  "updateCondition r a t s rs m w =
     (a\<lparr> AppService.Status := (AppService.Status a)\<lparr> Conditions :=
         (case updateCondition_loop (Conditions (AppService.Status a))
                 \<lparr> Condition.Type = t, Condition.Status = s, Reason = rs, Message = m,
                   LastTransitionTime = fst (Now r w), ObservedGeneration = 0 \<rparr> of
            Some conds \<Rightarrow> conds
          | None \<Rightarrow> Conditions (AppService.Status a) @
                 [\<lparr> Condition.Type = t, Condition.Status = s, Reason = rs, Message = m,
                   LastTransitionTime = fst (Now r w), ObservedGeneration = 0 \<rparr>]) \<rparr> \<rparr>, snd (Now r w))"
  by (cases "Now r w") (simp add: updateCondition_def Let_def split: option.splits)

lemma updateCondition_frame:
  "fst (updateCondition r a t s rs m w) =
     a\<lparr> AppService.Status := (AppService.Status a)
        \<lparr> Conditions := Conditions (AppService.Status (fst (updateCondition r a t s rs m w))) \<rparr> \<rparr>"
  by (simp add: updateCondition_unfold)

lemma updateCondition_sets:
  "\<exists>c. find (\<lambda>c. Condition.Type c = t)
          (Conditions (AppService.Status (fst (updateCondition r a t s rs m w)))) = Some c \<and>
       Condition.Status c = s"
proof -
  let ?cond = "\<lparr> Condition.Type = t, Condition.Status = s, Reason = rs, Message = m,
                 LastTransitionTime = fst (Now r w), ObservedGeneration = 0 \<rparr>"
  show ?thesis
  proof (cases "updateCondition_loop (Conditions (AppService.Status a)) ?cond")
    case None
    then have "find (\<lambda>c. Condition.Type c = t) (Conditions (AppService.Status a)) = None"
      by (simp add: updateCondition_loop_None_find)
    then show ?thesis using None
      by (simp add: updateCondition_unfold find_append_None)
  next
    case (Some cs')
    from updateCondition_loop_find[OF Some] show ?thesis using Some
      by (simp add: updateCondition_unfold)
  qed
qed

lemma updateCondition_ready: "ready_is s (fst (updateCondition r a ''Ready'' s rs m w))"
  using updateCondition_sets[of "''Ready''" r a s rs m w] by (auto simp: ready_is_def)

lemma updateCondition_count:
  "length (filter (\<lambda>c. Condition.Type c = t')
      (Conditions (AppService.Status (fst (updateCondition r a t s rs m w)))))
   \<le> max 1 (length (filter (\<lambda>c. Condition.Type c = t') (Conditions (AppService.Status a))))"
proof -
  let ?cond = "\<lparr> Condition.Type = t, Condition.Status = s, Reason = rs, Message = m,
                 LastTransitionTime = fst (Now r w), ObservedGeneration = 0 \<rparr>"
  let ?cs = "Conditions (AppService.Status a)"
  show ?thesis
  proof (cases "updateCondition_loop ?cs ?cond")
    case None
    then have "t \<notin> Condition.Type ` set ?cs" by (simp add: updateCondition_loop_None)
    then have "filter (\<lambda>c. Condition.Type c = t) ?cs = []"
      by (auto simp: filter_empty_conv)
    then show ?thesis using None by (cases "t = t'") (auto simp: updateCondition_unfold)
  next
    case (Some cs')
    from updateCondition_loop_types[OF Some] show ?thesis using Some
      by (simp add: updateCondition_unfold count_by_type)
  qed
qed

lemma updateCondition_distinct:
  assumes "distinct (map Condition.Type (Conditions (AppService.Status a)))"
  shows "distinct (map Condition.Type
           (Conditions (AppService.Status (fst (updateCondition r a t s rs m w)))))"
  using assms
  by (auto simp: updateCondition_unfold updateCondition_loop_None updateCondition_loop_types
      split: option.splits)

lemma updateConditions_count:
  "length (filter (\<lambda>c. Condition.Type c = t')
      (Conditions (AppService.Status (fst (updateConditions r a calls w)))))
   \<le> max 1 (length (filter (\<lambda>c. Condition.Type c = t') (Conditions (AppService.Status a))))"
proof (induction calls arbitrary: a w)
  case Nil
  then show ?case by simp
next
  case (Cons call calls)
  obtain t s rs m where call: "call = (t, s, rs, m)" by (cases call)
  obtain a1 w1 where u: "updateCondition r a t s rs m w = (a1, w1)"
    by (cases "updateCondition r a t s rs m w")
  have "length (filter (\<lambda>c. Condition.Type c = t') (Conditions (AppService.Status a1)))
      \<le> max 1 (length (filter (\<lambda>c. Condition.Type c = t') (Conditions (AppService.Status a))))"
    using updateCondition_count[of t' r a t s rs m w] u by simp
  with Cons.IH[of a1 w1] show ?case by (simp add: call u)
qed

lemma updateConditions_distinct:
  "distinct (map Condition.Type (Conditions (AppService.Status a))) \<Longrightarrow>
   distinct (map Condition.Type (Conditions (AppService.Status (fst (updateConditions r a calls w)))))"
proof (induction calls arbitrary: a w)
  case Nil
  then show ?case by simp
next
  case (Cons call calls)
  obtain t s rs m where call: "call = (t, s, rs, m)" by (cases call)
  obtain a1 w1 where u: "updateCondition r a t s rs m w = (a1, w1)"
    by (cases "updateCondition r a t s rs m w")
  have "distinct (map Condition.Type (Conditions (AppService.Status a1)))"
    using updateCondition_distinct[OF Cons.prems, of r t s rs m w] u by simp
  from Cons.IH[OF this] show ?case by (simp add: call u)
qed

lemma updateCondition_step:
  assumes i: "i < length (Conditions (AppService.Status a))"
  shows "i < length (Conditions (AppService.Status (fst (updateCondition r a t s rs m w)))) \<and>
     (Conditions (AppService.Status (fst (updateCondition r a t s rs m w))) ! i =
        Conditions (AppService.Status a) ! i \<or>
      Conditions (AppService.Status (fst (updateCondition r a t s rs m w))) ! i =
        \<lparr> Condition.Type = t, Condition.Status = s, Reason = rs, Message = m,
          LastTransitionTime = fst (Now r w), ObservedGeneration = 0 \<rparr> \<and>
      Condition.Type (Conditions (AppService.Status a) ! i) = t \<and>
      Condition.Status (Conditions (AppService.Status a) ! i) \<noteq> s)"
proof -
  let ?cond = "\<lparr> Condition.Type = t, Condition.Status = s, Reason = rs, Message = m,
                 LastTransitionTime = fst (Now r w), ObservedGeneration = 0 \<rparr>"
  let ?cs = "Conditions (AppService.Status a)"
  show ?thesis
  proof (cases "updateCondition_loop ?cs ?cond")
    case None
    then show ?thesis using i by (simp add: updateCondition_unfold nth_append)
  next
    case (Some cs')
    have l: "length cs' = length ?cs"
      using updateCondition_loop_types[OF Some] by (metis length_map)
    from updateCondition_loop_nth[OF Some i] show ?thesis
      using Some l i by (auto simp: updateCondition_unfold)
  qed
qed

text \<open>
  C10 (confirmed). When the first condition of the given type already has the new status,
  \<^verbatim>\<open>updateCondition\<close> leaves the record as it is: the conditions sequence is unchanged, the
  reason and the message of the existing condition are not refreshed.
\<close>
theorem updateCondition_same_status_unchanged:
  assumes "find (\<lambda>c. Condition.Type c = condType) (Conditions (AppService.Status app)) = Some c"
      and "Condition.Status c = status"
  shows "fst (updateCondition r app condType status reason message w) = app"
proof -
  let ?cond = "\<lparr> Condition.Type = condType, Condition.Status = status, Reason = reason,
                 Message = message, LastTransitionTime = fst (Now r w), ObservedGeneration = 0 \<rparr>"
  have "updateCondition_loop (Conditions (AppService.Status app)) ?cond =
          Some (Conditions (AppService.Status app))"
    using assms by (intro updateCondition_loop_same[where c=c]) simp_all
  then show ?thesis by (simp add: updateCondition_unfold)
qed

text \<open>C10 at the record \<open>web\<close> once it reports \<open>Ready = True\<close>: a call with the same status
  and another reason and message changes nothing.\<close>
theorem updateCondition_same_status_unchanged_witness:
  "fst (updateCondition (cluster_reconciler app_scheme)
          (web\<lparr> AppService.Status := (AppService.Status web)\<lparr> Conditions :=
             [\<lparr> Condition.Type = ''Ready'', Condition.Status = ConditionTrue,
                Reason = ''DeploymentReady'', Message = ''All replicas are available'',
                LastTransitionTime = 7, ObservedGeneration = 0 \<rparr>] \<rparr> \<rparr>)
          ''Ready'' ConditionTrue ''Rollout'' ''rolled out again'' cluster_ready)
   = web\<lparr> AppService.Status := (AppService.Status web)\<lparr> Conditions :=
             [\<lparr> Condition.Type = ''Ready'', Condition.Status = ConditionTrue,
                Reason = ''DeploymentReady'', Message = ''All replicas are available'',
                LastTransitionTime = 7, ObservedGeneration = 0 \<rparr>] \<rparr> \<rparr>"
proof -
  let ?c = "\<lparr> Condition.Type = ''Ready'', Condition.Status = ConditionTrue,
                Reason = ''DeploymentReady'', Message = ''All replicas are available'',
                LastTransitionTime = 7, ObservedGeneration = 0 \<rparr>"
  let ?app = "web\<lparr> AppService.Status := (AppService.Status web)\<lparr> Conditions := [?c] \<rparr> \<rparr>"
  have f: "find (\<lambda>c. Condition.Type c = ''Ready'') (Conditions (AppService.Status ?app)) = Some ?c"
    by simp
  have s: "Condition.Status ?c = ConditionTrue" by simp
  show ?thesis by (rule updateCondition_same_status_unchanged[OF f s])
qed

text \<open>
  C4 (confirmed). After any sequence of calls of \<^verbatim>\<open>updateCondition\<close> followed by one more
  call, no type has more conditions than it had at the start, or than one: the calls never
  produce a second condition of a type, and conditions that were unique by type stay so.
  In that last call every condition keeps its place and its type; its status changes
  exactly when its \<^verbatim>\<open>lastTransitionTime\<close> is stamped with the clock reading of the call, and a
  condition whose status does not change is not touched at all (reason, message and time
  stay). When the clock reading differs from the time the condition carried, the time
  changes if and only if the status changes.
\<close>
theorem updateCondition_one_per_type_and_transition:
  assumes "updateConditions r app calls w = (app1, w1)"
      and "updateCondition r app1 condType status reason message w1 = (app2, w2)"
  shows "(\<forall>t. length (filter (\<lambda>c. Condition.Type c = t) (Conditions (AppService.Status app2)))
              \<le> max 1 (length (filter (\<lambda>c. Condition.Type c = t) (Conditions (AppService.Status app)))))
       \<and> (distinct (map Condition.Type (Conditions (AppService.Status app))) \<longrightarrow>
            distinct (map Condition.Type (Conditions (AppService.Status app1))) \<and>
            distinct (map Condition.Type (Conditions (AppService.Status app2))))
       \<and> (\<forall>i < length (Conditions (AppService.Status app1)).
            i < length (Conditions (AppService.Status app2)) \<and>
            Condition.Type (Conditions (AppService.Status app2) ! i) =
              Condition.Type (Conditions (AppService.Status app1) ! i) \<and>
            (Condition.Status (Conditions (AppService.Status app2) ! i) =
               Condition.Status (Conditions (AppService.Status app1) ! i) \<longrightarrow>
             Conditions (AppService.Status app2) ! i = Conditions (AppService.Status app1) ! i) \<and>
            (Condition.Status (Conditions (AppService.Status app2) ! i) \<noteq>
               Condition.Status (Conditions (AppService.Status app1) ! i) \<longrightarrow>
             LastTransitionTime (Conditions (AppService.Status app2) ! i) = fst (Now r w1)) \<and>
            (fst (Now r w1) \<noteq> LastTransitionTime (Conditions (AppService.Status app1) ! i) \<longrightarrow>
             (LastTransitionTime (Conditions (AppService.Status app2) ! i) \<noteq>
                LastTransitionTime (Conditions (AppService.Status app1) ! i)) =
             (Condition.Status (Conditions (AppService.Status app2) ! i) \<noteq>
                Condition.Status (Conditions (AppService.Status app1) ! i))))"
proof -
  have a1: "app1 = fst (updateConditions r app calls w)" using assms(1) by simp
  have a2: "app2 = fst (updateCondition r app1 condType status reason message w1)"
    using assms(2) by simp
  have count: "length (filter (\<lambda>c. Condition.Type c = t) (Conditions (AppService.Status app2)))
      \<le> max 1 (length (filter (\<lambda>c. Condition.Type c = t) (Conditions (AppService.Status app))))" for t
  proof -
    have "length (filter (\<lambda>c. Condition.Type c = t) (Conditions (AppService.Status app2)))
        \<le> max 1 (length (filter (\<lambda>c. Condition.Type c = t) (Conditions (AppService.Status app1))))"
      unfolding a2 by (rule updateCondition_count)
    moreover have "length (filter (\<lambda>c. Condition.Type c = t) (Conditions (AppService.Status app1)))
        \<le> max 1 (length (filter (\<lambda>c. Condition.Type c = t) (Conditions (AppService.Status app))))"
      unfolding a1 by (rule updateConditions_count)
    ultimately show ?thesis by simp
  qed
  have dist: "distinct (map Condition.Type (Conditions (AppService.Status app1))) \<and>
      distinct (map Condition.Type (Conditions (AppService.Status app2)))"
    if d: "distinct (map Condition.Type (Conditions (AppService.Status app)))"
  proof -
    have d1: "distinct (map Condition.Type (Conditions (AppService.Status app1)))"
      unfolding a1 by (rule updateConditions_distinct[OF d])
    have "distinct (map Condition.Type (Conditions (AppService.Status app2)))"
      unfolding a2 by (rule updateCondition_distinct[OF d1])
    with d1 show ?thesis by simp
  qed
  have step: "i < length (Conditions (AppService.Status app2)) \<and>
            Condition.Type (Conditions (AppService.Status app2) ! i) =
              Condition.Type (Conditions (AppService.Status app1) ! i) \<and>
            (Condition.Status (Conditions (AppService.Status app2) ! i) =
               Condition.Status (Conditions (AppService.Status app1) ! i) \<longrightarrow>
             Conditions (AppService.Status app2) ! i = Conditions (AppService.Status app1) ! i) \<and>
            (Condition.Status (Conditions (AppService.Status app2) ! i) \<noteq>
               Condition.Status (Conditions (AppService.Status app1) ! i) \<longrightarrow>
             LastTransitionTime (Conditions (AppService.Status app2) ! i) = fst (Now r w1)) \<and>
            (fst (Now r w1) \<noteq> LastTransitionTime (Conditions (AppService.Status app1) ! i) \<longrightarrow>
             (LastTransitionTime (Conditions (AppService.Status app2) ! i) \<noteq>
                LastTransitionTime (Conditions (AppService.Status app1) ! i)) =
             (Condition.Status (Conditions (AppService.Status app2) ! i) \<noteq>
                Condition.Status (Conditions (AppService.Status app1) ! i)))"
    if i: "i < length (Conditions (AppService.Status app1))" for i
    using updateCondition_step[OF i, of r condType status reason message w1]
    unfolding a2[symmetric] by auto
  from count dist step show ?thesis by blast
qed

text \<open>C4 on the record \<open>web\<close>: \<open>Ready = False\<close> and \<open>Progressing = True\<close> are set at the clock
  readings 100 and 101, then \<open>Ready = True\<close> at 102. The types stay unique, the \<open>Ready\<close>
  condition changes status and time, the \<open>Progressing\<close> condition is not touched.\<close>
theorem updateCondition_one_per_type_and_transition_witness:
  "map (\<lambda>c. (Condition.Type c, Condition.Status c, LastTransitionTime c))
     (Conditions (AppService.Status (fst (updateConditions (cluster_reconciler app_scheme) web
        [(''Ready'', ConditionFalse, ''DeploymentNotReady'', ''Waiting for replicas''),
         (''Progressing'', ConditionTrue, ''NewReplicaSet'', ''rolling out'')] cluster_ready))))
     = [(''Ready'', ConditionFalse, 100), (''Progressing'', ConditionTrue, 101)]
   \<and> map (\<lambda>c. (Condition.Type c, Condition.Status c, LastTransitionTime c))
     (Conditions (AppService.Status (fst (updateCondition (cluster_reconciler app_scheme)
        (fst (updateConditions (cluster_reconciler app_scheme) web
          [(''Ready'', ConditionFalse, ''DeploymentNotReady'', ''Waiting for replicas''),
           (''Progressing'', ConditionTrue, ''NewReplicaSet'', ''rolling out'')] cluster_ready))
        ''Ready'' ConditionTrue ''DeploymentReady'' ''All replicas are available''
        (snd (updateConditions (cluster_reconciler app_scheme) web
          [(''Ready'', ConditionFalse, ''DeploymentNotReady'', ''Waiting for replicas''),
           (''Progressing'', ConditionTrue, ''NewReplicaSet'', ''rolling out'')] cluster_ready))))))
     = [(''Ready'', ConditionTrue, 102), (''Progressing'', ConditionTrue, 101)]
   \<and> distinct (map Condition.Type
     (Conditions (AppService.Status (fst (updateCondition (cluster_reconciler app_scheme)
        (fst (updateConditions (cluster_reconciler app_scheme) web
          [(''Ready'', ConditionFalse, ''DeploymentNotReady'', ''Waiting for replicas''),
           (''Progressing'', ConditionTrue, ''NewReplicaSet'', ''rolling out'')] cluster_ready))
        ''Ready'' ConditionTrue ''DeploymentReady'' ''All replicas are available''
        (snd (updateConditions (cluster_reconciler app_scheme) web
          [(''Ready'', ConditionFalse, ''DeploymentNotReady'', ''Waiting for replicas''),
           (''Progressing'', ConditionTrue, ''NewReplicaSet'', ''rolling out'')] cluster_ready)))))))"
proof -
  let ?r = "cluster_reconciler app_scheme"
  let ?calls = "[(''Ready'', ConditionFalse, ''DeploymentNotReady'', ''Waiting for replicas''),
         (''Progressing'', ConditionTrue, ''NewReplicaSet'', ''rolling out'')]"
  let ?run1 = "updateConditions ?r web ?calls cluster_ready"
  let ?run2 = "updateCondition ?r (fst ?run1) ''Ready'' ConditionTrue ''DeploymentReady''
     ''All replicas are available'' (snd ?run1)"
  have h1: "?run1 = (fst ?run1, snd ?run1)" by simp
  have h2: "?run2 = (fst ?run2, snd ?run2)" by simp
  have d0: "distinct (map Condition.Type (Conditions (AppService.Status web)))"
    by (simp add: web_def zero_AppService_def)
  from updateCondition_one_per_type_and_transition[OF h1 h2] d0
  have d: "distinct (map Condition.Type (Conditions (AppService.Status (fst ?run2))))"
    by blast
  have e1: "map (\<lambda>c. (Condition.Type c, Condition.Status c, LastTransitionTime c))
     (Conditions (AppService.Status (fst ?run1)))
     = [(''Ready'', ConditionFalse, 100), (''Progressing'', ConditionTrue, 101)]"
    by (simp add: example_defs)
  have e2: "map (\<lambda>c. (Condition.Type c, Condition.Status c, LastTransitionTime c))
     (Conditions (AppService.Status (fst ?run2)))
     = [(''Ready'', ConditionTrue, 102), (''Progressing'', ConditionTrue, 101)]"
    by (simp add: example_defs)
  from e1 e2 d show ?thesis by simp
qed

section \<open>Properties of the synthesizers\<close>

lemma SetControllerReference_Deployment_Spec:
  "Deployment.Spec (snd (SetControllerReference owner d scheme)) = Deployment.Spec d"
  by (auto simp: SetControllerReference_def Let_def split: option.splits)

text \<open>
  C9 (confirmed). The synthesized workload has one container. When the CPU or the memory
  hint of the record is non-empty, its resource requirements are the literal with an empty
  requests map and an empty limits map; when both hints are empty they are left at the
  zero value (no map at all). The hint values are not copied: two records that differ only
  in hints, and agree on whether some hint is non-empty, give the same workload.
\<close>
theorem deploymentForAppService_resources:
  "map Container.Resources
     (Containers (PodTemplateSpec.Spec (Template (Deployment.Spec (deploymentForAppService r app))))) =
     [if CPU (AppServiceSpec.Resources (AppService.Spec app)) \<noteq> [] \<or>
         Memory (AppServiceSpec.Resources (AppService.Spec app)) \<noteq> []
      then \<lparr> Limits = Some [], Requests = Some [] \<rparr>
      else zero_ResourceRequirements]
   \<and> (\<forall>c m c' m'. (c \<noteq> [] \<or> m \<noteq> []) = (c' \<noteq> [] \<or> m' \<noteq> []) \<longrightarrow>
        deploymentForAppService r (app\<lparr> AppService.Spec := (AppService.Spec app)
          \<lparr> AppServiceSpec.Resources := \<lparr> CPU = c, Memory = m \<rparr> \<rparr> \<rparr>) =
        deploymentForAppService r (app\<lparr> AppService.Spec := (AppService.Spec app)
          \<lparr> AppServiceSpec.Resources := \<lparr> CPU = c', Memory = m' \<rparr> \<rparr> \<rparr>))"
proof -
  have one: "map Container.Resources
     (Containers (PodTemplateSpec.Spec (Template (Deployment.Spec (deploymentForAppService r app))))) =
     [if CPU (AppServiceSpec.Resources (AppService.Spec app)) \<noteq> [] \<or>
         Memory (AppServiceSpec.Resources (AppService.Spec app)) \<noteq> []
      then \<lparr> Limits = Some [], Requests = Some [] \<rparr>
      else zero_ResourceRequirements]"
    by (simp add: deploymentForAppService_def SetControllerReference_Deployment_Spec Let_def
        zero_Container_def)
  have same: "deploymentForAppService r (app\<lparr> AppService.Spec := (AppService.Spec app)
          \<lparr> AppServiceSpec.Resources := \<lparr> CPU = c, Memory = m \<rparr> \<rparr> \<rparr>) =
        deploymentForAppService r (app\<lparr> AppService.Spec := (AppService.Spec app)
          \<lparr> AppServiceSpec.Resources := \<lparr> CPU = c', Memory = m' \<rparr> \<rparr> \<rparr>)"
    if "(c \<noteq> [] \<or> m \<noteq> []) = (c' \<noteq> [] \<or> m' \<noteq> [])" for c m c' m'
    using that
    by (cases "Scheme r"; cases "Environment (AppService.Spec app) = []";
        cases "c = []"; cases "m = []"; cases "c' = []"; cases "m' = []")
       (simp_all add: deploymentForAppService_def Let_def SetControllerReference_def)
  from one same show ?thesis by blast
qed

text \<open>C9 at \<open>web\<close> with the hints \<^verbatim>\<open>cpu: 500m, memory: 128Mi\<close>: the container has the empty
  maps, and the workload is the one synthesized for the hints \<^verbatim>\<open>cpu: 2\<close> alone; at \<open>web\<close>
  itself, which has no hint, the requirements are the zero value.\<close>
theorem deploymentForAppService_resources_witness:
  "map Container.Resources
     (Containers (PodTemplateSpec.Spec (Template (Deployment.Spec
        (deploymentForAppService (cluster_reconciler app_scheme)
           (web\<lparr> AppService.Spec := (AppService.Spec web)
              \<lparr> AppServiceSpec.Resources := \<lparr> CPU = ''500m'', Memory = ''128Mi'' \<rparr> \<rparr> \<rparr>))))))
     = [\<lparr> Limits = Some [], Requests = Some [] \<rparr>]
   \<and> deploymentForAppService (cluster_reconciler app_scheme)
        (web\<lparr> AppService.Spec := (AppService.Spec web)
           \<lparr> AppServiceSpec.Resources := \<lparr> CPU = ''500m'', Memory = ''128Mi'' \<rparr> \<rparr> \<rparr>)
     = deploymentForAppService (cluster_reconciler app_scheme)
        (web\<lparr> AppService.Spec := (AppService.Spec web)
           \<lparr> AppServiceSpec.Resources := \<lparr> CPU = ''2'', Memory = [] \<rparr> \<rparr> \<rparr>)
   \<and> map Container.Resources
     (Containers (PodTemplateSpec.Spec (Template (Deployment.Spec
        (deploymentForAppService (cluster_reconciler app_scheme) web)))))
     = [\<lparr> Limits = None, Requests = None \<rparr>]"
proof -
  let ?r = "cluster_reconciler app_scheme"
  let ?hinted = "web\<lparr> AppService.Spec := (AppService.Spec web)
              \<lparr> AppServiceSpec.Resources := \<lparr> CPU = ''500m'', Memory = ''128Mi'' \<rparr> \<rparr> \<rparr>"
  note t1 = deploymentForAppService_resources[of ?r ?hinted]
  note t2 = deploymentForAppService_resources[of ?r web]
  have a: "map Container.Resources
     (Containers (PodTemplateSpec.Spec (Template (Deployment.Spec (deploymentForAppService ?r ?hinted)))))
     = [\<lparr> Limits = Some [], Requests = Some [] \<rparr>]"
    using conjunct1[OF t1] by simp
  have b: "deploymentForAppService ?r ?hinted
     = deploymentForAppService ?r (web\<lparr> AppService.Spec := (AppService.Spec web)
           \<lparr> AppServiceSpec.Resources := \<lparr> CPU = ''2'', Memory = [] \<rparr> \<rparr> \<rparr>)"
    using conjunct2[OF t2, rule_format, of "''500m''" "''128Mi''" "''2''" "[]"] by simp
  have c: "map Container.Resources
     (Containers (PodTemplateSpec.Spec (Template (Deployment.Spec (deploymentForAppService ?r web)))))
     = [\<lparr> Limits = None, Requests = None \<rparr>]"
    using conjunct1[OF t2] by (simp add: web_def zero_AppService_def zero_ResourceRequirements_def)
  from a b c show ?thesis by simp
qed

section \<open>Properties of the reconcile state machine\<close>

text \<open>The recording reconciler answers as the reconciler it wraps and appends the call.\<close>

lemma traced_simps:
  "Get (AppServices (traced r)) k a (w, tr) =
     (fst (Get (AppServices r) k a w),
      (snd (Get (AppServices r) k a w),
       tr @ [AppServiceEv (GetCall k) (fst (Get (AppServices r) k a w))]))"
  "Update (AppServices (traced r)) a (w, tr) =
     (fst (Update (AppServices r) a w),
      (snd (Update (AppServices r) a w),
       tr @ [AppServiceEv (UpdateCall a) (fst (Update (AppServices r) a w))]))"
  "StatusUpdate (AppServices (traced r)) a (w, tr) =
     (fst (StatusUpdate (AppServices r) a w),
      (snd (StatusUpdate (AppServices r) a w),
       tr @ [AppServiceEv (StatusUpdateCall a) (fst (StatusUpdate (AppServices r) a w))]))"
  "Get (Deployments (traced r)) k d (w, tr) =
     (fst (Get (Deployments r) k d w),
      (snd (Get (Deployments r) k d w),
       tr @ [DeploymentEv (GetCall k) (fst (Get (Deployments r) k d w))]))"
  "Create (Deployments (traced r)) d (w, tr) =
     (fst (Create (Deployments r) d w),
      (snd (Create (Deployments r) d w),
       tr @ [DeploymentEv (CreateCall d) (fst (Create (Deployments r) d w))]))"
  "Update (Deployments (traced r)) d (w, tr) =
     (fst (Update (Deployments r) d w),
      (snd (Update (Deployments r) d w),
       tr @ [DeploymentEv (UpdateCall d) (fst (Update (Deployments r) d w))]))"
  "Get (Services (traced r)) k s (w, tr) =
     (fst (Get (Services r) k s w),
      (snd (Get (Services r) k s w),
       tr @ [ServiceEv (GetCall k) (fst (Get (Services r) k s w))]))"
  "Create (Services (traced r)) s (w, tr) =
     (fst (Create (Services r) s w),
      (snd (Create (Services r) s w),
       tr @ [ServiceEv (CreateCall s) (fst (Create (Services r) s w))]))"
  "Now (traced r) (w, tr) = (fst (Now r w), (snd (Now r w), tr))"
  "Scheme (traced r) = Scheme r"
  by (simp_all add: traced_def recording_def split: prod.splits)

lemma traced_updateCondition:
  "updateCondition (traced r) a t s rs m (w, tr) =
     (fst (updateCondition r a t s rs m w), (snd (Now r w), tr))"
  by (simp add: updateCondition_unfold traced_simps split: option.splits)

lemma updateCondition_world:
  "snd (updateCondition r a t s rs m w) = snd (Now r w)"
  by (simp add: updateCondition_unfold)

lemma traced_synthesizers:
  "deploymentForAppService (traced r) app = deploymentForAppService r app"
  "serviceForAppService (traced r) app = serviceForAppService r app"
  by (simp_all add: deploymentForAppService_def serviceForAppService_def traced_simps)

text \<open>
  Every run of the code from the Deployment fetch on is one of the ways of
  \<open>dependents_pass\<close>. It only appends to the calls made before, and it returns and leaves
  the world as the run against the client that does not record.
\<close>
lemma dependents_trace:
  "\<exists>w' suf.
     Reconcile_dependents (traced r) app (w, tr0) =
       (fst (Reconcile_dependents r app w), (w', tr0 @ suf)) \<and>
     Reconcile_dependents r app w = (fst (Reconcile_dependents r app w), w') \<and>
     dependents_pass r app (fst (Reconcile_dependents r app w)) suf"
proof -
  let ?k = "ObjectKeyFromObject app"
  have k: "\<lparr> NamespacedName.Namespace = ObjectMeta.Namespace app,
             NamespacedName.Name = ObjectMeta.Name app \<rparr> = ?k"
    by (simp add: ObjectKeyFromObject_def)
  have fin: ?thesis
    if "Reconcile_dependents (traced r) app (w, tr0) = (out, (w', tr0 @ suf))"
      and "Reconcile_dependents r app w = (out, w')"
      and "dependents_pass r app out suf" for out w' suf
    using that by auto
  obtain e1 d w1 where g1: "Get (Deployments r) ?k zero_Deployment w = ((e1, d), w1)"
    by (metis prod.exhaust)
  show ?thesis
  proof (cases e1)
    case (Some e)
    show ?thesis
    proof (cases "IsNotFound e")
      case False
      have "Reconcile_dependents (traced r) app (w, tr0) =
          (Return zero_Result (Some e), (w1, tr0 @ [DeploymentEv (GetCall ?k) (Some e, d)]))"
        using g1 Some False by (simp add: Reconcile_dependents_def k traced_simps)
      moreover have "Reconcile_dependents r app w = (Return zero_Result (Some e), w1)"
        using g1 Some False by (simp add: Reconcile_dependents_def k)
      ultimately show ?thesis by (rule fin) (rule deployment_get_failed[OF False])
    next
      case True
      obtain err d' w2 where
        c: "Create (Deployments r) (deploymentForAppService r app) w1 = ((err, d'), w2)"
        by (metis prod.exhaust)
      have "Reconcile_dependents (traced r) app (w, tr0) =
          (Return (if err = None then zero_Result\<lparr> Requeue := True \<rparr> else zero_Result) err,
           (w2, tr0 @ [DeploymentEv (GetCall ?k) (Some e, d),
                       DeploymentEv (CreateCall (deploymentForAppService r app)) (err, d')]))"
        using g1 Some True c
        by (simp add: Reconcile_dependents_def k traced_synthesizers traced_simps split: option.splits)
      moreover have "Reconcile_dependents r app w =
          (Return (if err = None then zero_Result\<lparr> Requeue := True \<rparr> else zero_Result) err, w2)"
        using g1 Some True c
        by (simp add: Reconcile_dependents_def k split: option.splits)
      ultimately show ?thesis by (rule fin) (rule deployment_created[OF True])
    qed
  next
    case None
    show ?thesis
    proof (cases "DeploymentSpec.Replicas (Deployment.Spec d)")
      case no: None
      have "Reconcile_dependents (traced r) app (w, tr0) =
          (Panic, (w1, tr0 @ [DeploymentEv (GetCall ?k) (None, d)]))"
        using g1 None no by (simp add: Reconcile_dependents_def k traced_simps)
      moreover have "Reconcile_dependents r app w = (Panic, w1)"
        using g1 None no by (simp add: Reconcile_dependents_def k)
      ultimately show ?thesis by (rule fin) (rule deployment_without_replicas[OF no])
    next
      case (Some n)
      show ?thesis
      proof (cases "n = AppServiceSpec.Replicas (AppService.Spec app)")
        case False
        let ?d = "d\<lparr> Deployment.Spec := (Deployment.Spec d)
           \<lparr> DeploymentSpec.Replicas := Some (AppServiceSpec.Replicas (AppService.Spec app)) \<rparr> \<rparr>"
        obtain err d' w2 where u: "Update (Deployments r) ?d w1 = ((err, d'), w2)"
          by (metis prod.exhaust)
        have "Reconcile_dependents (traced r) app (w, tr0) =
          (Return (if err = None then zero_Result\<lparr> Requeue := True \<rparr> else zero_Result) err,
           (w2, tr0 @ [DeploymentEv (GetCall ?k) (None, d), DeploymentEv (UpdateCall ?d) (err, d')]))"
          using g1 None Some False u
          by (simp add: Reconcile_dependents_def k traced_simps split: option.splits)
        moreover have "Reconcile_dependents r app w =
          (Return (if err = None then zero_Result\<lparr> Requeue := True \<rparr> else zero_Result) err, w2)"
          using g1 None Some False u
          by (simp add: Reconcile_dependents_def k split: option.splits)
        ultimately show ?thesis by (rule fin) (rule deployment_scaled[OF Some False])
      next
        case True
        obtain e2 s w2 where g2: "Get (Services r) ?k zero_Service w1 = ((e2, s), w2)"
          by (metis prod.exhaust)
        have same: "DeploymentSpec.Replicas (Deployment.Spec d) =
            Some (AppServiceSpec.Replicas (AppService.Spec app))"
          using Some True by simp
        show ?thesis
        proof (cases e2)
          case se: (Some e)
          show ?thesis
          proof (cases "IsNotFound e")
            case False
            have "Reconcile_dependents (traced r) app (w, tr0) =
               (Return zero_Result (Some e),
                (w2, tr0 @ [DeploymentEv (GetCall ?k) (None, d), ServiceEv (GetCall ?k) (Some e, s)]))"
              using g1 None same g2 se False
              by (simp add: Reconcile_dependents_def k traced_simps)
            moreover have "Reconcile_dependents r app w = (Return zero_Result (Some e), w2)"
              using g1 None same g2 se False
              by (simp add: Reconcile_dependents_def k)
            ultimately show ?thesis by (rule fin) (rule service_get_failed[OF same False])
          next
            case nf: True
            obtain err s' w3 where
              c: "Create (Services r) (serviceForAppService r app) w2 = ((err, s'), w3)"
              by (metis prod.exhaust)
            have "Reconcile_dependents (traced r) app (w, tr0) =
               (Return (if err = None then zero_Result\<lparr> Requeue := True \<rparr> else zero_Result) err,
                (w3, tr0 @ [DeploymentEv (GetCall ?k) (None, d), ServiceEv (GetCall ?k) (Some e, s),
                            ServiceEv (CreateCall (serviceForAppService r app)) (err, s')]))"
              using g1 None same g2 se nf c
              by (simp add: Reconcile_dependents_def k traced_synthesizers traced_simps
                  split: option.splits)
            moreover have "Reconcile_dependents r app w =
               (Return (if err = None then zero_Result\<lparr> Requeue := True \<rparr> else zero_Result) err, w3)"
              using g1 None same g2 se nf c
              by (simp add: Reconcile_dependents_def k split: option.splits)
            ultimately show ?thesis by (rule fin) (rule service_created[OF same nf])
          qed
        next
          case sn: None
          define ready where "ready \<longleftrightarrow> DeploymentStatus.AvailableReplicas (Deployment.Status d) =
                       AppServiceSpec.Replicas (AppService.Spec app)"
          define a0 where "a0 = app\<lparr> AppService.Status := (AppService.Status app)
               \<lparr> AppServiceStatus.AvailableReplicas :=
                   DeploymentStatus.AvailableReplicas (Deployment.Status d),
                 LastReconcileTime := fst (Now r w2),
                 Phase := (if ready then ''Running'' else ''Pending'') \<rparr> \<rparr>"
          define a where "a = (if ready
               then fst (updateCondition r a0 ''Ready'' ConditionTrue ''DeploymentReady''
                      ''All replicas are available'' (snd (Now r w2)))
               else fst (updateCondition r a0 ''Ready'' ConditionFalse ''DeploymentNotReady''
                      ''Waiting for replicas'' (snd (Now r w2))))"
          define SU where "SU = StatusUpdate (AppServices r) a (snd (Now r (snd (Now r w2))))"
          have run: "Reconcile_dependents (traced r) app (w, tr0) =
               (Return (if fst (fst SU) = None then zero_Result\<lparr> RequeueAfter := 30 * Second \<rparr>
                        else zero_Result) (fst (fst SU)),
                (snd SU, tr0 @ [DeploymentEv (GetCall ?k) (None, d), ServiceEv (GetCall ?k) (None, s),
                            AppServiceEv (StatusUpdateCall a) (fst SU)]))"
            using g1 None same g2 sn
            by (simp add: Reconcile_dependents_def k traced_simps traced_updateCondition Let_def
                  SU_def a_def a0_def ready_def case_prod_beta split: option.splits)
          have plain: "Reconcile_dependents r app w =
               (Return (if fst (fst SU) = None then zero_Result\<lparr> RequeueAfter := 30 * Second \<rparr>
                        else zero_Result) (fst (fst SU)), snd SU)"
            using g1 None same g2 sn
            by (simp add: Reconcile_dependents_def k updateCondition_world Let_def
                  SU_def a_def a0_def ready_def case_prod_beta split: option.splits)
          have fr: "a = a0\<lparr> AppService.Status := (AppService.Status a0)
                 \<lparr> Conditions := Conditions (AppService.Status a) \<rparr> \<rparr>"
          proof (cases ready)
            case True
            then have e: "a = fst (updateCondition r a0 ''Ready'' ConditionTrue ''DeploymentReady''
                ''All replicas are available'' (snd (Now r w2)))" by (simp add: a_def)
            show ?thesis unfolding e by (rule updateCondition_frame)
          next
            case False
            then have e: "a = fst (updateCondition r a0 ''Ready'' ConditionFalse ''DeploymentNotReady''
                ''Waiting for replicas'' (snd (Now r w2)))" by (simp add: a_def)
            show ?thesis unfolding e by (rule updateCondition_frame)
          qed
          define S where "S = (AppService.Status a0)\<lparr> Conditions := Conditions (AppService.Status a) \<rparr>"
          have fr': "a = a0\<lparr> AppService.Status := S \<rparr>"
            using fr by (simp add: S_def)
          have sa: "AppService.Status a = S"
            by (subst fr') simp
          have only: "a = app\<lparr> AppService.Status := AppService.Status a \<rparr>"
            unfolding sa by (subst fr') (simp add: a0_def)
          have av: "AppServiceStatus.AvailableReplicas (AppService.Status a) =
              DeploymentStatus.AvailableReplicas (Deployment.Status d)"
            unfolding sa by (simp add: S_def a0_def)
          have ph: "Phase (AppService.Status a) =
              (if DeploymentStatus.AvailableReplicas (Deployment.Status d) =
                  AppServiceSpec.Replicas (AppService.Spec app)
               then ''Running'' else ''Pending'')"
            unfolding sa by (simp add: S_def a0_def ready_def)
          have rdy: "ready_is (if DeploymentStatus.AvailableReplicas (Deployment.Status d) =
                  AppServiceSpec.Replicas (AppService.Spec app)
               then ConditionTrue else ConditionFalse) a"
            by (simp add: a_def updateCondition_ready ready_def)
          have "dependents_pass r app
              (Return (if fst (fst SU) = None then zero_Result\<lparr> RequeueAfter := 30 * Second \<rparr>
                       else zero_Result) (fst (fst SU)))
              [DeploymentEv (GetCall ?k) (None, d), ServiceEv (GetCall ?k) (None, s),
               AppServiceEv (StatusUpdateCall a) (fst (fst SU), snd (fst SU))]"
            using same only av ph rdy by (rule status_written)
          then have "dependents_pass r app
              (Return (if fst (fst SU) = None then zero_Result\<lparr> RequeueAfter := 30 * Second \<rparr>
                       else zero_Result) (fst (fst SU)))
              [DeploymentEv (GetCall ?k) (None, d), ServiceEv (GetCall ?k) (None, s),
               AppServiceEv (StatusUpdateCall a) (fst SU)]"
            by simp
          with run plain show ?thesis by (rule fin)
        qed
      qed
    qed
  qed
qed

lemma dependents_run:
  obtains w' suf where
    "Reconcile_dependents (traced r) app (w, tr0) =
       (fst (Reconcile_dependents r app w), (w', tr0 @ suf))"
    "Reconcile_dependents r app w = (fst (Reconcile_dependents r app w), w')"
    "dependents_pass r app (fst (Reconcile_dependents r app w)) suf"
  using dependents_trace[of r app w tr0] by blast

lemma only_status_differs:
  "a = app\<lparr> AppService.Status := s \<rparr> \<Longrightarrow> AppService.Spec a = AppService.Spec app"
  by simp

text \<open>
  Every pass is one of the ways of \<open>reconcile_pass\<close>, and it returns and leaves the world as
  the pass against the client that does not record.
\<close>
lemma Reconcile_traced:
  "\<exists>w' tr. Reconcile (traced r) req (w, []) = (fst (Reconcile r req w), (w', tr)) \<and>
     Reconcile r req w = (fst (Reconcile r req w), w') \<and>
     reconcile_pass r req (fst (Reconcile r req w)) tr"
proof -
  have fin: ?thesis
    if "Reconcile (traced r) req (w, []) = (out, (w', tr))"
      and "Reconcile r req w = (out, w')"
      and "reconcile_pass r req out tr" for out w' tr
    using that by auto
  obtain e1 app w1 where g: "Get (AppServices r) req zero_AppService w = ((e1, app), w1)"
    by (metis prod.exhaust)
  show ?thesis
  proof (cases e1)
    case (Some e)
    show ?thesis
    proof (cases "IsNotFound e")
      case True
      have "Reconcile (traced r) req (w, []) =
          (Return zero_Result None, (w1, [AppServiceEv (GetCall req) (Some e, app)]))"
        using g Some True by (simp add: Reconcile_def traced_simps)
      moreover have "Reconcile r req w = (Return zero_Result None, w1)"
        using g Some True by (simp add: Reconcile_def)
      ultimately show ?thesis by (rule fin) (rule record_not_found[OF True])
    next
      case False
      have "Reconcile (traced r) req (w, []) =
          (Return zero_Result (Some e), (w1, [AppServiceEv (GetCall req) (Some e, app)]))"
        using g Some False by (simp add: Reconcile_def traced_simps)
      moreover have "Reconcile r req w = (Return zero_Result (Some e), w1)"
        using g Some False by (simp add: Reconcile_def)
      ultimately show ?thesis by (rule fin) (rule record_get_failed[OF False])
    qed
  next
    case None
    show ?thesis
    proof (cases "IsZero (DeletionTimestamp app)")
      case False
      show ?thesis
      proof (cases "ContainsFinalizer app ''example.com/finalizer''")
        case True
        obtain err a w2 where
          u: "Update (AppServices r) (RemoveFinalizer app ''example.com/finalizer'') w1 = ((err, a), w2)"
          by (metis prod.exhaust)
        have "Reconcile (traced r) req (w, []) =
            (Return zero_Result err,
             (w2, [AppServiceEv (GetCall req) (None, app),
                   AppServiceEv (UpdateCall (RemoveFinalizer app ''example.com/finalizer'')) (err, a)]))"
          using g None False True u
          by (simp add: Reconcile_def traced_simps cleanupResources_def split: option.splits)
        moreover have "Reconcile r req w = (Return zero_Result err, w2)"
          using g None False True u
          by (simp add: Reconcile_def cleanupResources_def split: option.splits)
        ultimately show ?thesis by (rule fin) (rule finalizer_removed[OF False True])
      next
        case nf: False
        have "Reconcile (traced r) req (w, []) =
            (Return zero_Result None, (w1, [AppServiceEv (GetCall req) (None, app)]))"
          using g None False nf by (simp add: Reconcile_def traced_simps)
        moreover have "Reconcile r req w = (Return zero_Result None, w1)"
          using g None False nf by (simp add: Reconcile_def)
        ultimately show ?thesis by (rule fin) (rule deleted_without_finalizer[OF False nf])
      qed
    next
      case True
      show ?thesis
      proof (cases "ContainsFinalizer app ''example.com/finalizer''")
        case has: True
        let ?pre = "[AppServiceEv (GetCall req) (None, app)]"
        obtain w2 suf where d:
          "Reconcile_dependents (traced r) app (w1, ?pre) =
             (fst (Reconcile_dependents r app w1), (w2, ?pre @ suf))"
          "Reconcile_dependents r app w1 = (fst (Reconcile_dependents r app w1), w2)"
          "dependents_pass r app (fst (Reconcile_dependents r app w1)) suf"
          by (rule dependents_run)
        have "Reconcile (traced r) req (w, []) = Reconcile_dependents (traced r) app (w1, ?pre)"
          using g None True has by (simp add: Reconcile_def traced_simps)
        then have t: "Reconcile (traced r) req (w, []) =
            (fst (Reconcile_dependents r app w1), (w2, AppServiceEv (GetCall req) (None, app) # suf))"
          using d(1) by simp
        have "Reconcile r req w = Reconcile_dependents r app w1"
          using g None True has by (simp add: Reconcile_def)
        then have p: "Reconcile r req w = (fst (Reconcile_dependents r app w1), w2)"
          using d(2) by simp
        from t p show ?thesis by (rule fin) (rule finalizer_present[OF True has d(3)])
      next
        case no: False
        let ?u = "AddFinalizer app ''example.com/finalizer''"
        obtain err app' w2 where u: "Update (AppServices r) ?u w1 = ((err, app'), w2)"
          by (metis prod.exhaust)
        show ?thesis
        proof (cases err)
          case (Some e)
          have "Reconcile (traced r) req (w, []) =
              (Return zero_Result (Some e),
               (w2, [AppServiceEv (GetCall req) (None, app),
                     AppServiceEv (UpdateCall ?u) (Some e, app')]))"
            using g None True no u Some by (simp add: Reconcile_def traced_simps)
          moreover have "Reconcile r req w = (Return zero_Result (Some e), w2)"
            using g None True no u Some by (simp add: Reconcile_def)
          ultimately show ?thesis by (rule fin) (rule finalizer_add_failed[OF True no])
        next
          case ok: None
          let ?pre = "[AppServiceEv (GetCall req) (None, app),
                       AppServiceEv (UpdateCall ?u) (None, app')]"
          obtain w3 suf where d:
            "Reconcile_dependents (traced r) app' (w2, ?pre) =
               (fst (Reconcile_dependents r app' w2), (w3, ?pre @ suf))"
            "Reconcile_dependents r app' w2 = (fst (Reconcile_dependents r app' w2), w3)"
            "dependents_pass r app' (fst (Reconcile_dependents r app' w2)) suf"
            by (rule dependents_run)
          have "Reconcile (traced r) req (w, []) = Reconcile_dependents (traced r) app' (w2, ?pre)"
            using g None True no u ok by (simp add: Reconcile_def traced_simps)
          then have t: "Reconcile (traced r) req (w, []) =
              (fst (Reconcile_dependents r app' w2), (w3, ?pre @ suf))"
            using d(1) by simp
          have "Reconcile r req w = Reconcile_dependents r app' w2"
            using g None True no u ok by (simp add: Reconcile_def)
          then have p: "Reconcile r req w = (fst (Reconcile_dependents r app' w2), w3)"
            using d(2) by simp
          from t p show ?thesis by (rule fin) (rule finalizer_added[OF True no d(3)])
        qed
      qed
    qed
  qed
qed

lemma Reconcile_trace:
  assumes "Reconcile (traced r) req (w, []) = (out, (w', tr))"
  shows "reconcile_pass r req out tr"
  using Reconcile_traced[of r req w] assms by auto

text \<open>Recording changes neither what a pass returns nor the world it leaves.\<close>
lemma Reconcile_traced_same:
  assumes "Reconcile (traced r) req (w, []) = (out, (w', tr))"
  shows "Reconcile r req w = (out, w')"
  using Reconcile_traced[of r req w] assms by auto

subsection \<open>Passes on the example clusters\<close>

lemma run_ready:
  "Reconcile (traced (cluster_reconciler app_scheme)) web_key (cluster_ready, []) =
     (Return (zero_Result\<lparr> RequeueAfter := 30 * Second \<rparr>) None,
      (cluster_ready\<lparr> AppServiceObjs := [web_running\<lparr> ResourceVersion := ''11'' \<rparr>], Clock := 102 \<rparr>,
       [AppServiceEv (GetCall web_key) (None, web),
        DeploymentEv (GetCall web_key) (None, web_deployment),
        ServiceEv (GetCall web_key) (None, web_service),
        AppServiceEv (StatusUpdateCall web_running) (None, web_running\<lparr> ResourceVersion := ''11'' \<rparr>)]))"
  by (simp add: example_defs web_running_def)

lemma run_unmarked:
  "Reconcile (traced (cluster_reconciler app_scheme)) web_key (cluster_unmarked, []) =
     (Return (zero_Result\<lparr> RequeueAfter := 30 * Second \<rparr>) None,
      (cluster_ready\<lparr> AppServiceObjs := [web_running\<lparr> ResourceVersion := ''111'' \<rparr>], Clock := 102 \<rparr>,
       [AppServiceEv (GetCall web_key) (None, web\<lparr> Finalizers := [] \<rparr>),
        AppServiceEv (UpdateCall web) (None, web\<lparr> ResourceVersion := ''11'' \<rparr>),
        DeploymentEv (GetCall web_key) (None, web_deployment),
        ServiceEv (GetCall web_key) (None, web_service),
        AppServiceEv (StatusUpdateCall (web_running\<lparr> ResourceVersion := ''11'' \<rparr>))
          (None, web_running\<lparr> ResourceVersion := ''111'' \<rparr>)]))"
  by (simp add: example_defs web_running_def cluster_unmarked_def)

lemma run_deleting:
  "Reconcile (traced (cluster_reconciler app_scheme)) web_key (cluster_deleting, []) =
     (Return zero_Result None,
      (cluster_ready\<lparr> AppServiceObjs := [] \<rparr>,
       [AppServiceEv (GetCall web_key) (None, web\<lparr> DeletionTimestamp := Some 50 \<rparr>),
        AppServiceEv (UpdateCall (web\<lparr> DeletionTimestamp := Some 50, Finalizers := [] \<rparr>))
          (None, web\<lparr> DeletionTimestamp := Some 50, Finalizers := [], ResourceVersion := ''11'' \<rparr>)]))"
  by (simp add: example_defs cluster_deleting_def)

lemma run_scaled:
  "Reconcile (traced (cluster_reconciler app_scheme)) web_key (cluster_scaled, []) =
     (Return (zero_Result\<lparr> Requeue := True \<rparr>) None,
      (cluster_scaled\<lparr> DeploymentObjs := [web_deployment\<lparr> ResourceVersion := ''11'',
          Deployment.Spec := (Deployment.Spec web_deployment)\<lparr> DeploymentSpec.Replicas := Some 5 \<rparr> \<rparr>] \<rparr>,
       [AppServiceEv (GetCall web_key)
          (None, web\<lparr> AppService.Spec := (AppService.Spec web)\<lparr> AppServiceSpec.Replicas := 5 \<rparr> \<rparr>),
        DeploymentEv (GetCall web_key) (None, web_deployment),
        DeploymentEv (UpdateCall (web_deployment\<lparr> Deployment.Spec := (Deployment.Spec web_deployment)
            \<lparr> DeploymentSpec.Replicas := Some 5 \<rparr> \<rparr>))
          (None, web_deployment\<lparr> ResourceVersion := ''11'',
             Deployment.Spec := (Deployment.Spec web_deployment)\<lparr> DeploymentSpec.Replicas := Some 5 \<rparr> \<rparr>)]))"
  by (simp add: example_defs cluster_scaled_def)

lemma run_bad_port:
  "fst (Reconcile (traced (cluster_reconciler app_scheme)) web_key (cluster_bad_port, [])) =
     Return (zero_Result\<lparr> RequeueAfter := 30 * Second \<rparr>) None \<and>
   snd (snd (Reconcile (traced (cluster_reconciler app_scheme)) web_key (cluster_bad_port, []))) =
     [AppServiceEv (GetCall web_key) (None, web_bad_port),
      DeploymentEv (GetCall web_key) (None, web_deployment),
      ServiceEv (GetCall web_key) (None, web_service),
      AppServiceEv (StatusUpdateCall
          (web_bad_port\<lparr> AppService.Status := AppService.Status web_running \<rparr>))
        (None, web_bad_port\<lparr> AppService.Status := AppService.Status web_running,
             ResourceVersion := ''11'' \<rparr>)]"
  by (simp add: example_defs web_running_def cluster_bad_port_def web_bad_port_def)

lemma run_negative:
  "fst (Reconcile (traced (cluster_reconciler app_scheme)) web_key (cluster_negative, [])) =
     Return (zero_Result\<lparr> Requeue := True \<rparr>) None \<and>
   snd (snd (Reconcile (traced (cluster_reconciler app_scheme)) web_key (cluster_negative, []))) =
     [AppServiceEv (GetCall web_key) (None, web_negative),
      DeploymentEv (GetCall web_key) (Some NotFound, zero_Deployment),
      DeploymentEv (CreateCall (deploymentForAppService (cluster_reconciler app_scheme) web_negative))
        (None, (deploymentForAppService (cluster_reconciler app_scheme) web_negative)
            \<lparr> ResourceVersion := ''1'' \<rparr>)]"
  by (simp add: example_defs cluster_negative_def web_negative_def)

subsection \<open>The deletion protocol\<close>

text \<open>
  C5 (confirmed). On a record that is being deleted and carries the finalizer, a pass makes
  two calls, both on the record: the fetch, and the update of the record with the
  finalizer removed (cleanup, which does nothing but log, has run before). It returns the
  empty result with the answer of that update (no error when the update went through).
  No call is made on a dependent resource.
\<close>
theorem Reconcile_deleting_removes_finalizer:
  assumes "Get (AppServices r) req zero_AppService w = ((None, app), w1)"
      and "\<not> IsZero (DeletionTimestamp app)"
      and "ContainsFinalizer app ''example.com/finalizer''"
      and "Update (AppServices r) (RemoveFinalizer app ''example.com/finalizer'') w1 = ((err, app'), w2)"
  shows "Reconcile (traced r) req (w, []) =
           (Return zero_Result err,
            (w2, [AppServiceEv (GetCall req) (None, app),
                  AppServiceEv (UpdateCall (RemoveFinalizer app ''example.com/finalizer'')) (err, app')]))
       \<and> cleanupResources r app w1 = (None, w1)
       \<and> \<not> ContainsFinalizer (RemoveFinalizer app ''example.com/finalizer'') ''example.com/finalizer''
       \<and> filter on_dependent (snd (snd (Reconcile (traced r) req (w, [])))) = []"
proof -
  have run: "Reconcile (traced r) req (w, []) =
           (Return zero_Result err,
            (w2, [AppServiceEv (GetCall req) (None, app),
                  AppServiceEv (UpdateCall (RemoveFinalizer app ''example.com/finalizer'')) (err, app')]))"
    using assms
    by (simp add: Reconcile_def traced_simps cleanupResources_def split: option.splits)
  have gone: "\<not> ContainsFinalizer (RemoveFinalizer app ''example.com/finalizer'') ''example.com/finalizer''"
    by (simp add: ContainsFinalizer_def RemoveFinalizer_def)
  show ?thesis using gone by (simp add: run cleanupResources_def)
qed

text \<open>C5 on the cluster whose record \<open>web\<close> is being deleted: the update goes through, the
  store lets the record go, the pass returns the empty result.\<close>
theorem Reconcile_deleting_removes_finalizer_witness:
  "\<not> IsZero (DeletionTimestamp (web\<lparr> DeletionTimestamp := Some 50 \<rparr>))
   \<and> ContainsFinalizer (web\<lparr> DeletionTimestamp := Some 50 \<rparr>) ''example.com/finalizer''
   \<and> Reconcile (traced (cluster_reconciler app_scheme)) web_key (cluster_deleting, []) =
       (Return zero_Result None,
        (cluster_ready\<lparr> AppServiceObjs := [] \<rparr>,
         [AppServiceEv (GetCall web_key) (None, web\<lparr> DeletionTimestamp := Some 50 \<rparr>),
          AppServiceEv (UpdateCall (RemoveFinalizer (web\<lparr> DeletionTimestamp := Some 50 \<rparr>)
              ''example.com/finalizer''))
            (None, web\<lparr> DeletionTimestamp := Some 50, Finalizers := [], ResourceVersion := ''11'' \<rparr>)]))"
proof -
  let ?r = "cluster_reconciler app_scheme"
  let ?app = "web\<lparr> DeletionTimestamp := Some 50 \<rparr>"
  have g: "Get (AppServices ?r) web_key zero_AppService cluster_deleting = ((None, ?app), cluster_deleting)"
    by (simp add: example_defs cluster_deleting_def)
  have z: "\<not> IsZero (DeletionTimestamp ?app)" by (simp add: IsZero_def)
  have f: "ContainsFinalizer ?app ''example.com/finalizer''"
    by (simp add: ContainsFinalizer_def web_def)
  have u: "Update (AppServices ?r) (RemoveFinalizer ?app ''example.com/finalizer'') cluster_deleting =
      ((None, web\<lparr> DeletionTimestamp := Some 50, Finalizers := [], ResourceVersion := ''11'' \<rparr>),
       cluster_ready\<lparr> AppServiceObjs := [] \<rparr>)"
    by (simp add: example_defs cluster_deleting_def)
  from Reconcile_deleting_removes_finalizer[OF g z f u] z f show ?thesis by simp
qed

subsection \<open>The finalizer of a record that is not being deleted\<close>

lemma dependents_pass_first:
  "dependents_pass r app out suf \<Longrightarrow>
   \<exists>res rest. suf = DeploymentEv (GetCall (ObjectKeyFromObject app)) res # rest"
  by (cases rule: dependents_pass.cases) auto

text \<open>
  C1 (corrected). As stated the claim fails: after the finalizer has been added and the
  record persisted, the pass does not return; on the cluster whose record \<open>web\<close> lacks the
  finalizer it goes on to fetch the workload and the endpoint and to write the status, and
  it returns the delayed retry of a finished pass, not an immediate one.
\<close>
theorem Reconcile_finalizer_added_counterexample:
  "fst (Reconcile (traced (cluster_reconciler app_scheme)) web_key (cluster_unmarked, [])) =
     Return (zero_Result\<lparr> RequeueAfter := 30 * Second \<rparr>) None
   \<and> fst (Reconcile (traced (cluster_reconciler app_scheme)) web_key (cluster_unmarked, [])) \<noteq>
     Return (zero_Result\<lparr> Requeue := True \<rparr>) None
   \<and> map operation (snd (snd (Reconcile (traced (cluster_reconciler app_scheme)) web_key
        (cluster_unmarked, [])))) =
     [(''Get'', ''AppService''), (''Update'', ''AppService''), (''Get'', ''Deployment''),
      (''Get'', ''Service''), (''Status().Update'', ''AppService'')]"
  by (simp add: run_unmarked zero_Result_def Second_def)

text \<open>
  C1, amended. On a found record that is not being deleted and lacks the finalizer, the
  pass adds the finalizer and updates the record. If the update fails, the pass returns
  its error and makes no other call. If it goes through, the pass continues in the same
  pass, with the record as the update left it, into the reconciliation of the dependent
  resources: its next call is the fetch of the workload.
\<close>
theorem Reconcile_adds_finalizer_and_continues:
  assumes "Get (AppServices r) req zero_AppService w = ((None, app), w1)"
      and "IsZero (DeletionTimestamp app)"
      and "\<not> ContainsFinalizer app ''example.com/finalizer''"
      and "Update (AppServices r) (AddFinalizer app ''example.com/finalizer'') w1 = ((err, app'), w2)"
  shows "ContainsFinalizer (AddFinalizer app ''example.com/finalizer'') ''example.com/finalizer'' \<and>
    (case err of
       Some e \<Rightarrow>
         Reconcile (traced r) req (w, []) =
           (Return zero_Result (Some e),
            (w2, [AppServiceEv (GetCall req) (None, app),
                  AppServiceEv (UpdateCall (AddFinalizer app ''example.com/finalizer'')) (err, app')]))
     | None \<Rightarrow>
         Reconcile (traced r) req (w, []) =
           Reconcile_dependents (traced r) app'
             (w2, [AppServiceEv (GetCall req) (None, app),
                   AppServiceEv (UpdateCall (AddFinalizer app ''example.com/finalizer'')) (err, app')]) \<and>
         (\<exists>res rest. snd (snd (Reconcile (traced r) req (w, []))) =
            [AppServiceEv (GetCall req) (None, app),
             AppServiceEv (UpdateCall (AddFinalizer app ''example.com/finalizer'')) (err, app')] @
            DeploymentEv (GetCall (ObjectKeyFromObject app')) res # rest))"
proof -
  let ?pre = "[AppServiceEv (GetCall req) (None, app),
     AppServiceEv (UpdateCall (AddFinalizer app ''example.com/finalizer'')) (err, app')]"
  have a: "ContainsFinalizer (AddFinalizer app ''example.com/finalizer'') ''example.com/finalizer''"
    by (simp add: ContainsFinalizer_def AddFinalizer_def)
  show ?thesis
  proof (cases err)
    case None
    have run: "Reconcile (traced r) req (w, []) = Reconcile_dependents (traced r) app' (w2, ?pre)"
      using assms None by (simp add: Reconcile_def traced_simps)
    obtain w3 suf where d:
      "Reconcile_dependents (traced r) app' (w2, ?pre) =
         (fst (Reconcile_dependents r app' w2), (w3, ?pre @ suf))"
      "Reconcile_dependents r app' w2 = (fst (Reconcile_dependents r app' w2), w3)"
      "dependents_pass r app' (fst (Reconcile_dependents r app' w2)) suf"
      by (rule dependents_run)
    from dependents_pass_first[OF d(3)] obtain res rest where
      "suf = DeploymentEv (GetCall (ObjectKeyFromObject app')) res # rest" by blast
    with d(1) have "snd (snd (Reconcile_dependents (traced r) app' (w2, ?pre))) =
        ?pre @ DeploymentEv (GetCall (ObjectKeyFromObject app')) res # rest"
      by (metis snd_conv)
    then show ?thesis using a None run by auto
  next
    case (Some e)
    then show ?thesis using assms a by (simp add: Reconcile_def traced_simps)
  qed
qed

text \<open>C1, amended, on the cluster whose record \<open>web\<close> lacks the finalizer: the update goes
  through and the pass continues with the record as stored.\<close>
theorem Reconcile_adds_finalizer_and_continues_witness:
  "IsZero (DeletionTimestamp (web\<lparr> Finalizers := [] \<rparr>))
   \<and> \<not> ContainsFinalizer (web\<lparr> Finalizers := [] \<rparr>) ''example.com/finalizer''
   \<and> ContainsFinalizer (AddFinalizer (web\<lparr> Finalizers := [] \<rparr>) ''example.com/finalizer'')
        ''example.com/finalizer''
   \<and> Reconcile (traced (cluster_reconciler app_scheme)) web_key (cluster_unmarked, []) =
       Reconcile_dependents (traced (cluster_reconciler app_scheme)) (web\<lparr> ResourceVersion := ''11'' \<rparr>)
         (cluster_ready\<lparr> AppServiceObjs := [web\<lparr> ResourceVersion := ''11'' \<rparr>] \<rparr>,
          [AppServiceEv (GetCall web_key) (None, web\<lparr> Finalizers := [] \<rparr>),
           AppServiceEv (UpdateCall (AddFinalizer (web\<lparr> Finalizers := [] \<rparr>) ''example.com/finalizer''))
             (None, web\<lparr> ResourceVersion := ''11'' \<rparr>)])"
proof -
  let ?r = "cluster_reconciler app_scheme"
  let ?app = "web\<lparr> Finalizers := [] \<rparr>"
  have g: "Get (AppServices ?r) web_key zero_AppService cluster_unmarked = ((None, ?app), cluster_unmarked)"
    by (simp add: example_defs cluster_unmarked_def)
  have z: "IsZero (DeletionTimestamp ?app)" by (simp add: IsZero_def web_def zero_AppService_def)
  have f: "\<not> ContainsFinalizer ?app ''example.com/finalizer''"
    by (simp add: ContainsFinalizer_def)
  have u: "Update (AppServices ?r) (AddFinalizer ?app ''example.com/finalizer'') cluster_unmarked =
      ((None, web\<lparr> ResourceVersion := ''11'' \<rparr>),
       cluster_ready\<lparr> AppServiceObjs := [web\<lparr> ResourceVersion := ''11'' \<rparr>] \<rparr>)"
    by (simp add: example_defs cluster_unmarked_def)
  from Reconcile_adds_finalizer_and_continues[OF g z f u] z f show ?thesis by simp
qed

subsection \<open>Scaling the workload\<close>

text \<open>
  C7 (confirmed). Take a pass that reaches the workload step with the record \<open>app\<close> in hand
  (the record as fetched when it carries the finalizer, or as the update that added the
  finalizer left it), finds the workload, and finds its replica count different from the
  record's. The pass updates the workload as fetched with only \<^verbatim>\<open>Spec.Replicas\<close> set to the
  record's count, and that is its last call: no call is made on the network endpoint. It
  returns \<^verbatim>\<open>Requeue: true\<close> when the update went through, and the update's error otherwise.
\<close>
theorem Reconcile_scales_only_replicas:
  assumes "Get (AppServices r) req zero_AppService w = ((None, app0), w0)"
      and "IsZero (DeletionTimestamp app0)"
      and "(ContainsFinalizer app0 ''example.com/finalizer'' \<and> app = app0 \<and> w1 = w0 \<and> pre = []) \<or>
           (\<not> ContainsFinalizer app0 ''example.com/finalizer'' \<and>
            Update (AppServices r) (AddFinalizer app0 ''example.com/finalizer'') w0 = ((None, app), w1) \<and>
            pre = [AppServiceEv (UpdateCall (AddFinalizer app0 ''example.com/finalizer'')) (None, app)])"
      and "Get (Deployments r) (ObjectKeyFromObject app) zero_Deployment w1 = ((None, deployment), w2)"
      and "DeploymentSpec.Replicas (Deployment.Spec deployment) = Some n"
      and "n \<noteq> AppServiceSpec.Replicas (AppService.Spec app)"
      and "Update (Deployments r)
             (deployment\<lparr> Deployment.Spec := (Deployment.Spec deployment)
                \<lparr> DeploymentSpec.Replicas := Some (AppServiceSpec.Replicas (AppService.Spec app)) \<rparr> \<rparr>) w2
           = ((err, deployment'), w3)"
  shows "Reconcile (traced r) req (w, []) =
           (Return (if err = None then zero_Result\<lparr> Requeue := True \<rparr> else zero_Result) err,
            (w3, AppServiceEv (GetCall req) (None, app0) # pre @
                 [DeploymentEv (GetCall (ObjectKeyFromObject app)) (None, deployment),
                  DeploymentEv (UpdateCall (deployment\<lparr> Deployment.Spec := (Deployment.Spec deployment)
                      \<lparr> DeploymentSpec.Replicas := Some (AppServiceSpec.Replicas (AppService.Spec app)) \<rparr> \<rparr>))
                    (err, deployment')]))
       \<and> filter on_service (snd (snd (Reconcile (traced r) req (w, [])))) = []"
proof -
  have d: "Reconcile_dependents (traced r) app (w1, tr) =
           (Return (if err = None then zero_Result\<lparr> Requeue := True \<rparr> else zero_Result) err,
            (w3, tr @
                 [DeploymentEv (GetCall (ObjectKeyFromObject app)) (None, deployment),
                  DeploymentEv (UpdateCall (deployment\<lparr> Deployment.Spec := (Deployment.Spec deployment)
                      \<lparr> DeploymentSpec.Replicas := Some (AppServiceSpec.Replicas (AppService.Spec app)) \<rparr> \<rparr>))
                    (err, deployment')]))" for tr
    using assms(4-7)
    by (simp add: Reconcile_dependents_def traced_simps ObjectKeyFromObject_def split: option.splits)
  from assms(3) show ?thesis
  proof
    assume "ContainsFinalizer app0 ''example.com/finalizer'' \<and> app = app0 \<and> w1 = w0 \<and> pre = []"
    then show ?thesis using assms(1,2) d by (simp add: Reconcile_def traced_simps)
  next
    assume "\<not> ContainsFinalizer app0 ''example.com/finalizer'' \<and>
          Update (AppServices r) (AddFinalizer app0 ''example.com/finalizer'') w0 = ((None, app), w1) \<and>
          pre = [AppServiceEv (UpdateCall (AddFinalizer app0 ''example.com/finalizer'')) (None, app)]"
    then show ?thesis using assms(1,2) d by (simp add: Reconcile_def traced_simps)
  qed
qed

text \<open>C7 on the cluster whose record \<open>web\<close> was edited from three to five replicas: the pass
  updates the workload to five replicas and returns the immediate retry; the endpoint is
  not called.\<close>
theorem Reconcile_scales_only_replicas_witness:
  "DeploymentSpec.Replicas (Deployment.Spec web_deployment) = Some 3
   \<and> AppServiceSpec.Replicas (AppService.Spec
        (web\<lparr> AppService.Spec := (AppService.Spec web)\<lparr> AppServiceSpec.Replicas := 5 \<rparr> \<rparr>)) = 5
   \<and> fst (Reconcile (traced (cluster_reconciler app_scheme)) web_key (cluster_scaled, [])) =
       Return (zero_Result\<lparr> Requeue := True \<rparr>) None
   \<and> map operation (snd (snd (Reconcile (traced (cluster_reconciler app_scheme)) web_key
        (cluster_scaled, [])))) =
       [(''Get'', ''AppService''), (''Get'', ''Deployment''), (''Update'', ''Deployment'')]
   \<and> filter on_service (snd (snd (Reconcile (traced (cluster_reconciler app_scheme)) web_key
        (cluster_scaled, [])))) = []"
proof -
  let ?r = "cluster_reconciler app_scheme"
  let ?app = "web\<lparr> AppService.Spec := (AppService.Spec web)\<lparr> AppServiceSpec.Replicas := 5 \<rparr> \<rparr>"
  let ?d = "web_deployment\<lparr> Deployment.Spec := (Deployment.Spec web_deployment)
      \<lparr> DeploymentSpec.Replicas := Some (AppServiceSpec.Replicas (AppService.Spec ?app)) \<rparr> \<rparr>"
  let ?w = "cluster_scaled\<lparr> DeploymentObjs := [?d\<lparr> ResourceVersion := ''11'' \<rparr>] \<rparr>"
  have g: "Get (AppServices ?r) web_key zero_AppService cluster_scaled = ((None, ?app), cluster_scaled)"
    by (simp add: example_defs cluster_scaled_def)
  have z: "IsZero (DeletionTimestamp ?app)" by (simp add: IsZero_def web_def zero_AppService_def)
  have f: "(ContainsFinalizer ?app ''example.com/finalizer'' \<and> ?app = ?app \<and>
            cluster_scaled = cluster_scaled \<and> [] = []) \<or>
           (\<not> ContainsFinalizer ?app ''example.com/finalizer'' \<and>
            Update (AppServices ?r) (AddFinalizer ?app ''example.com/finalizer'') cluster_scaled =
              ((None, ?app), cluster_scaled) \<and>
            [] = [AppServiceEv (UpdateCall (AddFinalizer ?app ''example.com/finalizer'')) (None, ?app)])"
    by (simp add: ContainsFinalizer_def web_def)
  have gd: "Get (Deployments ?r) (ObjectKeyFromObject ?app) zero_Deployment cluster_scaled =
      ((None, web_deployment), cluster_scaled)"
    by (simp add: example_defs cluster_scaled_def)
  have n: "DeploymentSpec.Replicas (Deployment.Spec web_deployment) = Some 3"
    by (simp add: example_defs)
  have ne: "3 \<noteq> AppServiceSpec.Replicas (AppService.Spec ?app)" by simp
  have u: "Update (Deployments ?r) ?d cluster_scaled = ((None, ?d\<lparr> ResourceVersion := ''11'' \<rparr>), ?w)"
    by (simp add: example_defs cluster_scaled_def)
  from Reconcile_scales_only_replicas[OF g z f gd n ne u] n show ?thesis
    by (simp add: ObjectKeyFromObject_def)
qed

subsection \<open>The status a pass writes\<close>

text \<open>
  C2 (corrected). As stated the claim fails: on the cluster where the workload of \<open>web\<close>
  reports three available replicas of three, the pass reaches the status update and the
  phase it writes is \<open>Running\<close>, not \<open>Ready\<close>.
\<close>
theorem Reconcile_status_phase_counterexample:
  "status_writes (snd (snd (Reconcile (traced (cluster_reconciler app_scheme)) web_key
      (cluster_ready, [])))) = [web_running]
   \<and> AppServiceStatus.AvailableReplicas (AppService.Status web_running) =
       AppServiceSpec.Replicas (AppService.Spec web_running)
   \<and> Phase (AppService.Status web_running) = ''Running''
   \<and> Phase (AppService.Status web_running) \<noteq> ''Ready''"
  by (simp add: run_ready web_running_def web_def zero_AppService_def)

text \<open>
  C2, amended. In every pass that reaches the status update with the available replica
  count of the fetched workload equal to the replica count of the record, the record
  handed to the status update carries that available count, the phase \<open>Running\<close>, and a
  \<open>Ready\<close> condition (the first of that type) with status \<open>True\<close>.
\<close>
theorem Reconcile_status_running_when_available:
  assumes "Reconcile (traced r) req (w, []) = (out, (w', tr))"
      and "DeploymentEv (GetCall k) (None, d) \<in> set tr"
      and "AppServiceEv (StatusUpdateCall a) res \<in> set tr"
      and "DeploymentStatus.AvailableReplicas (Deployment.Status d) =
           AppServiceSpec.Replicas (AppService.Spec a)"
  shows "AppServiceStatus.AvailableReplicas (AppService.Status a) =
           DeploymentStatus.AvailableReplicas (Deployment.Status d)
       \<and> Phase (AppService.Status a) = ''Running''
       \<and> ready_is ConditionTrue a"
proof -
  have dp: "AppServiceStatus.AvailableReplicas (AppService.Status a) =
           DeploymentStatus.AvailableReplicas (Deployment.Status d)
       \<and> Phase (AppService.Status a) = ''Running'' \<and> ready_is ConditionTrue a"
    if "dependents_pass r app out suf" "DeploymentEv (GetCall k) (None, d) \<in> set suf"
       "AppServiceEv (StatusUpdateCall a) res \<in> set suf" for app suf
    using that assms(4)
    by (cases rule: dependents_pass.cases) (auto split: if_splits dest!: only_status_differs)
  from Reconcile_trace[OF assms(1)] show ?thesis
    using assms(2,3) dp by (cases rule: reconcile_pass.cases) auto
qed

text \<open>C2, amended, on that cluster: the status written for \<open>web\<close>.\<close>
theorem Reconcile_status_running_when_available_witness:
  "DeploymentEv (GetCall web_key) (None, web_deployment) \<in>
     set (snd (snd (Reconcile (traced (cluster_reconciler app_scheme)) web_key (cluster_ready, []))))
   \<and> AppServiceEv (StatusUpdateCall web_running) (None, web_running\<lparr> ResourceVersion := ''11'' \<rparr>) \<in>
     set (snd (snd (Reconcile (traced (cluster_reconciler app_scheme)) web_key (cluster_ready, []))))
   \<and> DeploymentStatus.AvailableReplicas (Deployment.Status web_deployment) =
       AppServiceSpec.Replicas (AppService.Spec web_running)
   \<and> AppServiceStatus.AvailableReplicas (AppService.Status web_running) = 3
   \<and> Phase (AppService.Status web_running) = ''Running''
   \<and> ready_is ConditionTrue web_running"
proof -
  have r: "Reconcile (traced (cluster_reconciler app_scheme)) web_key (cluster_ready, []) =
     (Return (zero_Result\<lparr> RequeueAfter := 30 * Second \<rparr>) None,
      (cluster_ready\<lparr> AppServiceObjs := [web_running\<lparr> ResourceVersion := ''11'' \<rparr>], Clock := 102 \<rparr>,
       snd (snd (Reconcile (traced (cluster_reconciler app_scheme)) web_key (cluster_ready, [])))))"
    by (simp add: run_ready)
  have d: "DeploymentEv (GetCall web_key) (None, web_deployment) \<in>
     set (snd (snd (Reconcile (traced (cluster_reconciler app_scheme)) web_key (cluster_ready, []))))"
    by (simp add: run_ready)
  have s: "AppServiceEv (StatusUpdateCall web_running) (None, web_running\<lparr> ResourceVersion := ''11'' \<rparr>) \<in>
     set (snd (snd (Reconcile (traced (cluster_reconciler app_scheme)) web_key (cluster_ready, []))))"
    by (simp add: run_ready)
  have e: "DeploymentStatus.AvailableReplicas (Deployment.Status web_deployment) =
       AppServiceSpec.Replicas (AppService.Spec web_running)"
    by (simp add: example_defs web_running_def)
  have three: "DeploymentStatus.AvailableReplicas (Deployment.Status web_deployment) = 3"
    by (simp add: example_defs)
  from Reconcile_status_running_when_available[OF r d s e] d s e three show ?thesis by simp
qed

subsection \<open>Records with an invalid desired state\<close>

text \<open>
  C3 (corrected). As stated the claim fails: \<^verbatim>\<open>Reconcile\<close> never validates the desired state
  and never sets a \<open>Failed\<close> phase. On the cluster whose record was edited to the port
  70000 the pass writes the status of a healthy record (phase \<open>Running\<close>, \<open>Ready = True\<close>)
  and returns the delayed retry; on the cluster whose record asks for \<open>-1\<close> replicas the
  pass creates the workload for it and writes no status.
\<close>
theorem Reconcile_invalid_record_counterexample:
  "AppServiceObjs cluster_bad_port = [web_bad_port]
   \<and> sint (AppServiceSpec.Port (AppService.Spec web_bad_port)) = 70000
   \<and> status_writes (snd (snd (Reconcile (traced (cluster_reconciler app_scheme)) web_key
        (cluster_bad_port, [])))) =
       [web_bad_port\<lparr> AppService.Status := AppService.Status web_running \<rparr>]
   \<and> Phase (AppService.Status web_running) = ''Running''
   \<and> ready_is ConditionTrue web_running
   \<and> fst (Reconcile (traced (cluster_reconciler app_scheme)) web_key (cluster_bad_port, [])) =
       Return (zero_Result\<lparr> RequeueAfter := 30 * Second \<rparr>) None
   \<and> AppServiceObjs cluster_negative = [web_negative]
   \<and> sint (AppServiceSpec.Replicas (AppService.Spec web_negative)) = - 1
   \<and> status_writes (snd (snd (Reconcile (traced (cluster_reconciler app_scheme)) web_key
        (cluster_negative, [])))) = []
   \<and> map operation (snd (snd (Reconcile (traced (cluster_reconciler app_scheme)) web_key
        (cluster_negative, [])))) =
       [(''Get'', ''AppService''), (''Get'', ''Deployment''), (''Create'', ''Deployment'')]
   \<and> fst (Reconcile (traced (cluster_reconciler app_scheme)) web_key (cluster_negative, [])) =
       Return (zero_Result\<lparr> Requeue := True \<rparr>) None"
proof -
  have p: "sint (AppServiceSpec.Port (AppService.Spec web_bad_port)) = 70000"
    by (simp add: web_bad_port_def)
  have n: "sint (AppServiceSpec.Replicas (AppService.Spec web_negative)) = - 1"
    by (simp add: web_negative_def)
  have s: "Phase (AppService.Status web_running) = ''Running'' \<and> ready_is ConditionTrue web_running"
    by (simp add: web_running_def ready_is_def)
  have c: "AppServiceObjs cluster_bad_port = [web_bad_port]"
    "AppServiceObjs cluster_negative = [web_negative]"
    by (simp_all add: cluster_bad_port_def cluster_negative_def)
  from p n s c show ?thesis
    by (simp add: run_bad_port run_negative)
qed

text \<open>
  C3, amended. A pass treats every record alike, valid or not: any status it writes has
  the phase \<open>Running\<close> or \<open>Pending\<close>, never \<open>Failed\<close>; and when the pass returns an error, it
  is the error its last store call was answered with.
\<close>
theorem Reconcile_never_reports_failed:
  assumes "Reconcile (traced r) req (w, []) = (out, (w', tr))"
  shows "(\<forall>a res. AppServiceEv (StatusUpdateCall a) res \<in> set tr \<longrightarrow>
            Phase (AppService.Status a) \<noteq> ''Failed'' \<and>
            (Phase (AppService.Status a) = ''Running'' \<or> Phase (AppService.Status a) = ''Pending''))
       \<and> (\<forall>res e. out = Return res (Some e) \<longrightarrow> tr \<noteq> [] \<and> answer_error (last tr) = Some e)"
proof -
  have dp: "(\<forall>a res. AppServiceEv (StatusUpdateCall a) res \<in> set suf \<longrightarrow>
            Phase (AppService.Status a) \<noteq> ''Failed'' \<and>
            (Phase (AppService.Status a) = ''Running'' \<or> Phase (AppService.Status a) = ''Pending''))
       \<and> (\<forall>res e. out = Return res (Some e) \<longrightarrow> suf \<noteq> [] \<and> answer_error (last suf) = Some e)"
    if "dependents_pass r app out suf" for app suf
    using that
    by (cases rule: dependents_pass.cases) (auto split: if_splits dest!: only_status_differs)
  from Reconcile_trace[OF assms(1)] show ?thesis
    using dp by (cases rule: reconcile_pass.cases) (auto; blast)+
qed

text \<open>C3, amended, on the cluster whose record has the port 70000: the status written has
  the phase \<open>Running\<close>.\<close>
theorem Reconcile_never_reports_failed_witness:
  "AppServiceEv (StatusUpdateCall (web_bad_port\<lparr> AppService.Status := AppService.Status web_running \<rparr>))
     (None, web_bad_port\<lparr> AppService.Status := AppService.Status web_running,
          ResourceVersion := ''11'' \<rparr>)
     \<in> set (snd (snd (Reconcile (traced (cluster_reconciler app_scheme)) web_key (cluster_bad_port, []))))
   \<and> Phase (AppService.Status (web_bad_port\<lparr> AppService.Status := AppService.Status web_running \<rparr>))
     \<noteq> ''Failed''
   \<and> Phase (AppService.Status (web_bad_port\<lparr> AppService.Status := AppService.Status web_running \<rparr>))
     = ''Running''"
proof -
  let ?run = "Reconcile (traced (cluster_reconciler app_scheme)) web_key (cluster_bad_port, [])"
  let ?a = "web_bad_port\<lparr> AppService.Status := AppService.Status web_running \<rparr>"
  have r: "?run = (fst ?run, (fst (snd ?run), snd (snd ?run)))" by simp
  have m: "AppServiceEv (StatusUpdateCall ?a) (None, ?a\<lparr> ResourceVersion := ''11'' \<rparr>) \<in> set (snd (snd ?run))"
    by (simp add: run_bad_port)
  from Reconcile_never_reports_failed[OF r] m
  have "Phase (AppService.Status ?a) \<noteq> ''Failed''" by blast
  moreover have "Phase (AppService.Status ?a) = ''Running''" by (simp add: web_running_def)
  ultimately show ?thesis using m by simp
qed

section \<open>Properties of the accessor helpers\<close>

lemma recording_simps:
  "Get (recording ev c) k a (w, tr) =
     (fst (Get c k a w), (snd (Get c k a w), tr @ [ev (GetCall k) (fst (Get c k a w))]))"
  "Create (recording ev c) a (w, tr) =
     (fst (Create c a w), (snd (Create c a w), tr @ [ev (CreateCall a) (fst (Create c a w))]))"
  "Update (recording ev c) a (w, tr) =
     (fst (Update c a w), (snd (Update c a w), tr @ [ev (UpdateCall a) (fst (Update c a w))]))"
  by (simp_all add: recording_def split: prod.splits)

lemma ObjectKeyFromObject_ResourceVersion:
  "ObjectKeyFromObject (obj\<lparr> ResourceVersion := v \<rparr>) = ObjectKeyFromObject obj"
  by (simp add: ObjectKeyFromObject_def)

text \<open>Once stored, an object that is not let go is found under its key.\<close>
lemma lookup_store:
  assumes "lookup k objs = Some stored" "ObjectKeyFromObject new = k"
    "IsZero (DeletionTimestamp new) \<or> Finalizers new \<noteq> []"
  shows "lookup k (store new objs) = Some new"
  using assms
  by (induction objs) (auto simp: lookup_def store_def split: if_splits)

lemma CreateOrUpdate_calls:
  fixes c :: "('a ObjectMeta_scheme, 'w) Client"
  assumes "Get c (ObjectKeyFromObject obj) obj w = ((err, existing), w1)"
  shows "CreateOrUpdate (recording Pair c) obj (w, []) =
     (case err of
        Some e \<Rightarrow>
          if IsNotFound e
          then (fst (Create c obj w1),
                (snd (Create c obj w1),
                 [(GetCall (ObjectKeyFromObject obj), (err, existing)),
                  (CreateCall obj, fst (Create c obj w1))]))
          else ((Some e, obj), (w1, [(GetCall (ObjectKeyFromObject obj), (err, existing))]))
      | None \<Rightarrow>
          (fst (Update c (obj\<lparr> ResourceVersion := ResourceVersion existing \<rparr>) w1),
           (snd (Update c (obj\<lparr> ResourceVersion := ResourceVersion existing \<rparr>) w1),
            [(GetCall (ObjectKeyFromObject obj), (err, existing)),
             (UpdateCall (obj\<lparr> ResourceVersion := ResourceVersion existing \<rparr>),
              fst (Update c (obj\<lparr> ResourceVersion := ResourceVersion existing \<rparr>) w1))])))"
  using assms by (simp add: CreateOrUpdate_def recording_simps Let_def split: option.splits)

lemma CreateOrUpdate_on_store:
  fixes obj :: "'a ObjectMeta_scheme"
  shows "(lookup (ObjectKeyFromObject obj) objs = None \<longrightarrow>
            CreateOrUpdate list_api obj objs =
              ((None, obj\<lparr> ResourceVersion := ''1'' \<rparr>), objs @ [obj\<lparr> ResourceVersion := ''1'' \<rparr>]))
       \<and> (lookup (ObjectKeyFromObject obj) objs = Some stored \<longrightarrow>
            CreateOrUpdate list_api obj objs =
              ((None, obj\<lparr> ResourceVersion := CHR ''1'' # ResourceVersion stored \<rparr>),
               store (obj\<lparr> ResourceVersion := CHR ''1'' # ResourceVersion stored \<rparr>) objs))"
  by (simp add: CreateOrUpdate_def Let_def list_api_def api_client_def store_update_def
      ObjectKeyFromObject_ResourceVersion)

lemma CreateOrUpdate_against_writer:
  fixes obj :: "'a ObjectMeta_scheme"
  assumes "lookup (ObjectKeyFromObject obj) objs = Some stored"
    and "ObjectKeyFromObject theirs = ObjectKeyFromObject obj"
    and "ResourceVersion theirs = ResourceVersion stored"
    and "IsZero (DeletionTimestamp theirs) \<or> Finalizers theirs \<noteq> []"
  shows "CreateOrUpdate (writer_after_Get (\<lambda>w. snd (Update list_api theirs w)) list_api) obj objs =
           ((Some Conflict, obj\<lparr> ResourceVersion := ResourceVersion stored \<rparr>),
            store (theirs\<lparr> ResourceVersion := CHR ''1'' # ResourceVersion stored \<rparr>) objs)
       \<and> lookup (ObjectKeyFromObject obj)
           (store (theirs\<lparr> ResourceVersion := CHR ''1'' # ResourceVersion stored \<rparr>) objs)
           = Some (theirs\<lparr> ResourceVersion := CHR ''1'' # ResourceVersion stored \<rparr>)"
proof -
  let ?t = "theirs\<lparr> ResourceVersion := CHR ''1'' # ResourceVersion stored \<rparr>"
  have k: "ObjectKeyFromObject ?t = ObjectKeyFromObject obj"
    using assms(2) by (simp add: ObjectKeyFromObject_def)
  have l: "lookup (ObjectKeyFromObject obj) (store ?t objs) = Some ?t"
    using assms(1,4) k by (intro lookup_store[where stored=stored]) simp_all
  have u: "Update list_api theirs objs = ((None, ?t), store ?t objs)"
    using assms(1,2,3) by (simp add: list_api_def api_client_def store_update_def Let_def)
  have "CreateOrUpdate (writer_after_Get (\<lambda>w. snd (Update list_api theirs w)) list_api) obj objs =
           ((Some Conflict, obj\<lparr> ResourceVersion := ResourceVersion stored \<rparr>), store ?t objs)"
    using assms(1) l u
    by (simp add: CreateOrUpdate_def writer_after_Get_def Let_def list_api_def api_client_def
        store_update_def ObjectKeyFromObject_ResourceVersion)
  then show ?thesis using l by simp
qed

text \<open>
  C6 (confirmed). \<^verbatim>\<open>CreateOrUpdate\<close> first fetches by the key of the object. When the fetch
  reports not-found, its second and last call creates the object; when the fetch fails
  otherwise, it returns that error and makes no other call; when the fetch succeeds, its
  second and last call updates the object with the version stamp of the fetched object
  copied onto it. Against the store with version stamps: an absent object is created; a
  present one is updated under a new stamp; and when another writer has updated the object
  between the fetch and the update, the update is refused with \<open>Conflict\<close> and the store
  keeps what the other writer wrote.
\<close>
theorem CreateOrUpdate_read_modify_write:
  fixes c :: "('a ObjectMeta_scheme, 'w) Client" and obj :: "'a ObjectMeta_scheme"
  shows "(Get c (ObjectKeyFromObject obj) obj w = ((err, existing), w1) \<longrightarrow>
          CreateOrUpdate (recording Pair c) obj (w, []) =
            (case err of
               Some e \<Rightarrow>
                 if IsNotFound e
                 then (fst (Create c obj w1),
                       (snd (Create c obj w1),
                        [(GetCall (ObjectKeyFromObject obj), (err, existing)),
                         (CreateCall obj, fst (Create c obj w1))]))
                 else ((Some e, obj), (w1, [(GetCall (ObjectKeyFromObject obj), (err, existing))]))
             | None \<Rightarrow>
                 (fst (Update c (obj\<lparr> ResourceVersion := ResourceVersion existing \<rparr>) w1),
                  (snd (Update c (obj\<lparr> ResourceVersion := ResourceVersion existing \<rparr>) w1),
                   [(GetCall (ObjectKeyFromObject obj), (err, existing)),
                    (UpdateCall (obj\<lparr> ResourceVersion := ResourceVersion existing \<rparr>),
                     fst (Update c (obj\<lparr> ResourceVersion := ResourceVersion existing \<rparr>) w1))]))))
       \<and> (lookup (ObjectKeyFromObject obj) objs = None \<longrightarrow>
            CreateOrUpdate list_api obj objs =
              ((None, obj\<lparr> ResourceVersion := ''1'' \<rparr>), objs @ [obj\<lparr> ResourceVersion := ''1'' \<rparr>]))
       \<and> (lookup (ObjectKeyFromObject obj) objs = Some stored \<longrightarrow>
            CreateOrUpdate list_api obj objs =
              ((None, obj\<lparr> ResourceVersion := CHR ''1'' # ResourceVersion stored \<rparr>),
               store (obj\<lparr> ResourceVersion := CHR ''1'' # ResourceVersion stored \<rparr>) objs))
       \<and> (lookup (ObjectKeyFromObject obj) objs = Some stored \<and>
          ObjectKeyFromObject theirs = ObjectKeyFromObject obj \<and>
          ResourceVersion theirs = ResourceVersion stored \<and>
          (IsZero (DeletionTimestamp theirs) \<or> Finalizers theirs \<noteq> []) \<longrightarrow>
            CreateOrUpdate (writer_after_Get (\<lambda>w. snd (Update list_api theirs w)) list_api) obj objs =
              ((Some Conflict, obj\<lparr> ResourceVersion := ResourceVersion stored \<rparr>),
               store (theirs\<lparr> ResourceVersion := CHR ''1'' # ResourceVersion stored \<rparr>) objs) \<and>
            lookup (ObjectKeyFromObject obj)
              (store (theirs\<lparr> ResourceVersion := CHR ''1'' # ResourceVersion stored \<rparr>) objs)
              = Some (theirs\<lparr> ResourceVersion := CHR ''1'' # ResourceVersion stored \<rparr>))"
  using CreateOrUpdate_calls[of c obj w err existing w1]
    CreateOrUpdate_on_store[of obj objs stored]
    CreateOrUpdate_against_writer[of obj objs stored theirs]
  by blast

text \<open>C6 on a store that holds the workload of \<open>web\<close> at the stamp \<open>1\<close>. The object to
  write asks for five replicas and carries no stamp. Alone, \<^verbatim>\<open>CreateOrUpdate\<close> fetches,
  then updates with the stamp \<open>1\<close>, and the store holds five replicas at the stamp \<open>11\<close>.
  When another writer sets four replicas after the fetch, the update is refused and the
  store holds four replicas.\<close>
theorem CreateOrUpdate_read_modify_write_witness:
  "CreateOrUpdate (recording Pair list_api)
      (web_deployment\<lparr> ResourceVersion := [], Deployment.Spec := (Deployment.Spec web_deployment)
         \<lparr> DeploymentSpec.Replicas := Some 5 \<rparr> \<rparr>) ([web_deployment], []) =
     ((None, web_deployment\<lparr> ResourceVersion := ''11'', Deployment.Spec := (Deployment.Spec web_deployment)
         \<lparr> DeploymentSpec.Replicas := Some 5 \<rparr> \<rparr>),
      ([web_deployment\<lparr> ResourceVersion := ''11'', Deployment.Spec := (Deployment.Spec web_deployment)
         \<lparr> DeploymentSpec.Replicas := Some 5 \<rparr> \<rparr>],
       [(GetCall web_key, (None, web_deployment)),
        (UpdateCall (web_deployment\<lparr> ResourceVersion := ''1'', Deployment.Spec := (Deployment.Spec web_deployment)
           \<lparr> DeploymentSpec.Replicas := Some 5 \<rparr> \<rparr>),
         (None, web_deployment\<lparr> ResourceVersion := ''11'', Deployment.Spec := (Deployment.Spec web_deployment)
           \<lparr> DeploymentSpec.Replicas := Some 5 \<rparr> \<rparr>))]))
   \<and> CreateOrUpdate
      (writer_after_Get (\<lambda>w. snd (Update list_api
           (web_deployment\<lparr> Deployment.Spec := (Deployment.Spec web_deployment)
              \<lparr> DeploymentSpec.Replicas := Some 4 \<rparr> \<rparr>) w)) list_api)
      (web_deployment\<lparr> ResourceVersion := [], Deployment.Spec := (Deployment.Spec web_deployment)
         \<lparr> DeploymentSpec.Replicas := Some 5 \<rparr> \<rparr>) [web_deployment] =
     ((Some Conflict, web_deployment\<lparr> ResourceVersion := ''1'', Deployment.Spec := (Deployment.Spec web_deployment)
         \<lparr> DeploymentSpec.Replicas := Some 5 \<rparr> \<rparr>),
      [web_deployment\<lparr> ResourceVersion := ''11'', Deployment.Spec := (Deployment.Spec web_deployment)
         \<lparr> DeploymentSpec.Replicas := Some 4 \<rparr> \<rparr>])"
proof -
  let ?obj = "web_deployment\<lparr> ResourceVersion := [], Deployment.Spec := (Deployment.Spec web_deployment)
         \<lparr> DeploymentSpec.Replicas := Some 5 \<rparr> \<rparr>"
  let ?theirs = "web_deployment\<lparr> Deployment.Spec := (Deployment.Spec web_deployment)
              \<lparr> DeploymentSpec.Replicas := Some 4 \<rparr> \<rparr>"
  note t = CreateOrUpdate_read_modify_write[of list_api ?obj "[web_deployment]" None web_deployment
      "[web_deployment]" "[web_deployment]" web_deployment ?theirs]
  have g: "Get list_api (ObjectKeyFromObject ?obj) ?obj [web_deployment] =
      ((None, web_deployment), [web_deployment])"
    by (simp add: example_defs list_api_def)
  have l: "lookup (ObjectKeyFromObject ?obj) [web_deployment] = Some web_deployment"
    by (simp add: example_defs list_api_def)
  have k: "ObjectKeyFromObject ?theirs = ObjectKeyFromObject ?obj"
    by (simp add: ObjectKeyFromObject_def)
  have v: "ResourceVersion ?theirs = ResourceVersion web_deployment" by simp
  have z: "IsZero (DeletionTimestamp ?theirs) \<or> Finalizers ?theirs \<noteq> []"
    by (simp add: example_defs list_api_def)
  have a: "CreateOrUpdate (recording Pair list_api) ?obj ([web_deployment], []) =
     (fst (Update list_api (?obj\<lparr> ResourceVersion := ResourceVersion web_deployment \<rparr>) [web_deployment]),
      (snd (Update list_api (?obj\<lparr> ResourceVersion := ResourceVersion web_deployment \<rparr>) [web_deployment]),
       [(GetCall (ObjectKeyFromObject ?obj), (None, web_deployment)),
        (UpdateCall (?obj\<lparr> ResourceVersion := ResourceVersion web_deployment \<rparr>),
         fst (Update list_api (?obj\<lparr> ResourceVersion := ResourceVersion web_deployment \<rparr>) [web_deployment]))]))"
    using t g by simp
  have b: "CreateOrUpdate (writer_after_Get (\<lambda>w. snd (Update list_api ?theirs w)) list_api) ?obj
        [web_deployment] =
      ((Some Conflict, ?obj\<lparr> ResourceVersion := ResourceVersion web_deployment \<rparr>),
       store (?theirs\<lparr> ResourceVersion := CHR ''1'' # ResourceVersion web_deployment \<rparr>) [web_deployment])"
    using t l k v z by blast
  have rv: "ResourceVersion web_deployment = ''1''" by (simp add: web_deployment_def)
  have key: "ObjectKeyFromObject ?obj = web_key" by (simp add: example_defs list_api_def)
  have u: "Update list_api (?obj\<lparr> ResourceVersion := ''1'' \<rparr>) [web_deployment] =
      ((None, ?obj\<lparr> ResourceVersion := ''11'' \<rparr>), [?obj\<lparr> ResourceVersion := ''11'' \<rparr>])"
    by (simp add: example_defs list_api_def)
  have s: "store (?theirs\<lparr> ResourceVersion := ''11'' \<rparr>) [web_deployment] = [?theirs\<lparr> ResourceVersion := ''11'' \<rparr>]"
    by (simp add: example_defs list_api_def)
  from a b u s show ?thesis by (simp add: rv key)
qed

text \<open>
  C8 (confirmed). \<^verbatim>\<open>GetObject\<close> returns a nil error when the client's \<^verbatim>\<open>Get\<close> succeeds and
  when it reports not-found, and passes every other error on. It never touches the
  caller's object itself: the object is as the client's \<^verbatim>\<open>Get\<close> left it, so with a store
  that writes nothing when it finds nothing the object is unmodified, and the return value
  is the same nil error as for an object that exists.
\<close>
theorem GetObject_hides_not_found:
  fixes c :: "('a ObjectMeta_scheme, 'w) Client"
  shows "(Get c key obj w = ((None, found), w') \<longrightarrow> GetObject c key obj w = ((None, found), w'))
       \<and> (Get c key obj w = ((Some e, left), w') \<and> IsNotFound e \<longrightarrow>
            GetObject c key obj w = ((None, left), w'))
       \<and> (Get c key obj w = ((Some e, left), w') \<and> \<not> IsNotFound e \<longrightarrow>
            GetObject c key obj w = ((Some e, left), w'))
       \<and> snd (fst (GetObject c key obj w)) = snd (fst (Get c key obj w))
       \<and> (lookup key objs = None \<longrightarrow> GetObject list_api key obj objs = ((None, obj), objs))
       \<and> (lookup key objs = Some stored \<longrightarrow> GetObject list_api key obj objs = ((None, stored), objs))"
proof -
  have a: "Get c key obj w = ((None, found), w') \<longrightarrow> GetObject c key obj w = ((None, found), w')"
    by (simp add: GetObject_def)
  have b: "Get c key obj w = ((Some e, left), w') \<and> IsNotFound e \<longrightarrow>
            GetObject c key obj w = ((None, left), w')"
    by (simp add: GetObject_def)
  have c: "Get c key obj w = ((Some e, left), w') \<and> \<not> IsNotFound e \<longrightarrow>
            GetObject c key obj w = ((Some e, left), w')"
    by (simp add: GetObject_def)
  have d: "snd (fst (GetObject c key obj w)) = snd (fst (Get c key obj w))"
    by (simp add: GetObject_def Let_def split: prod.splits option.splits)
  have e: "lookup key objs = None \<longrightarrow> GetObject list_api key obj objs = ((None, obj), objs)"
    by (simp add: GetObject_def list_api_def api_client_def)
  have f: "lookup key objs = Some stored \<longrightarrow> GetObject list_api key obj objs = ((None, stored), objs)"
    by (simp add: GetObject_def list_api_def api_client_def)
  from a b c d e f show ?thesis by blast
qed

text \<open>C8 on the store of workloads: the fetch of \<open>web\<close> from an empty store and from the
  store that holds its workload both return a nil error; in the first the caller's empty
  object is as it was.\<close>
theorem GetObject_hides_not_found_witness:
  "Get list_api web_key zero_Deployment [] = ((Some NotFound, zero_Deployment), [])
   \<and> IsNotFound NotFound
   \<and> GetObject list_api web_key zero_Deployment [] = ((None, zero_Deployment), [])
   \<and> GetObject list_api web_key zero_Deployment [web_deployment] = ((None, web_deployment), [web_deployment])"
proof -
  note t = GetObject_hides_not_found[of list_api web_key zero_Deployment "[]" web_deployment
      "[]" NotFound zero_Deployment "[web_deployment]" web_deployment]
  have g: "Get list_api web_key zero_Deployment [] = ((Some NotFound, zero_Deployment), [])"
    by (simp add: list_api_def api_client_def lookup_def)
  have l: "lookup web_key [web_deployment] = Some web_deployment"
    by (simp add: example_defs list_api_def)
  have a: "GetObject list_api web_key zero_Deployment [] = ((None, zero_Deployment), [])"
    using t g by simp
  have b: "GetObject list_api web_key zero_Deployment [web_deployment] =
      ((None, web_deployment), [web_deployment])"
    using t l by blast
  from g a b show ?thesis by simp
qed


end
